theory Spec2Isabelle
  imports Main "HOL-Library.Word"
begin

unbundle bit_operations_syntax

section \<open>Bytes, hexadecimal text and decimal text\<close>

text \<open>
  The repository holds two Go commands, main.go (the token command) and a second main
  package (the NFT command). Both are written against the Go standard library and
  go-ethereum. The functions of those libraries that the commands call are defined here
  after their documented behaviour, under their Go names; the hash function Keccak-256
  is a parameter \<open>K\<close> of every definition that needs it.

  Go's \<^verbatim>\<open>[]byte\<close> is a list of 8-bit words and a Go \<^verbatim>\<open>string\<close> is a list of
  characters (bytes). \<^verbatim>\<open>common.Hash\<close> is \<^verbatim>\<open>[32]byte\<close> and
  \<^verbatim>\<open>common.Address\<close> is \<^verbatim>\<open>[20]byte\<close>; both are byte lists here.
\<close>

type_synonym byte = "8 word"
type_synonym bytes = "byte list"

definition bytesOf :: "string \<Rightarrow> bytes" where
  "bytesOf s = map of_char s"

definition stringOf :: "bytes \<Rightarrow> string" where
  "stringOf b = map (\<lambda>x. char_of (unat x)) b"

definition nl :: string where
  "nl = [CHR 0x0A]"

text \<open>
  \<^verbatim>\<open>encoding/hex\<close>: \<^verbatim>\<open>hextable = "0123456789abcdef"\<close>, and
  \<^verbatim>\<open>Encode\<close> writes \<^verbatim>\<open>hextable[v>>4]\<close> then \<^verbatim>\<open>hextable[v&0x0f]\<close>
  for every byte.
\<close>

definition hextable :: string where
  "hextable = ''0123456789abcdef''"

definition hexByte :: "byte \<Rightarrow> string" where
  "hexByte v = [hextable ! unat (drop_bit 4 v), hextable ! unat (v AND 0x0f)]"

definition EncodeToString :: "bytes \<Rightarrow> string" where
  "EncodeToString src = concat (map hexByte src)"

text \<open>
  \<^verbatim>\<open>fromHexChar\<close>: the value of a hexadecimal digit, of either case; nothing for
  any other character.
\<close>

definition fromHexChar :: "char \<Rightarrow> byte option" where
  "fromHexChar c =
     (let n = (of_char c :: nat) in
      if 48 \<le> n \<and> n \<le> 57 then Some (of_nat (n - 48))
      else if 97 \<le> n \<and> n \<le> 102 then Some (of_nat (n - 97 + 10))
      else if 65 \<le> n \<and> n \<le> 70 then Some (of_nat (n - 65 + 10))
      else None)"

text \<open>
  \<^verbatim>\<open>common.Hex2Bytes(str)\<close> is \<^verbatim>\<open>h, _ := hex.DecodeString(str); return h\<close>:
  the error is dropped and the bytes decoded before the first invalid pair (or before a
  trailing single character) are returned.
\<close>

fun Hex2Bytes :: "string \<Rightarrow> bytes" where
  "Hex2Bytes (p # q # rest) =
     (case fromHexChar p of
        None \<Rightarrow> []
      | Some a \<Rightarrow>
          (case fromHexChar q of
             None \<Rightarrow> []
           | Some b \<Rightarrow> (push_bit 4 a OR b) # Hex2Bytes rest))"
| "Hex2Bytes _ = []"

definition has0xPrefix :: "string \<Rightarrow> bool" where
  "has0xPrefix str =
     (length str \<ge> 2 \<and> str ! 0 = CHR ''0'' \<and> (str ! 1 = CHR ''x'' \<or> str ! 1 = CHR ''X''))"

definition FromHex :: "string \<Rightarrow> bytes" where
  "FromHex s0 =
     (let s = (if has0xPrefix s0 then drop 2 s0 else s0);
          s = (if length s mod 2 = 1 then ''0'' @ s else s)
      in Hex2Bytes s)"

text \<open>
  \<^verbatim>\<open>common.BytesToAddress\<close>: \<^verbatim>\<open>SetBytes\<close> keeps the last 20 bytes of a longer
  slice and right-aligns a shorter one in a zeroed array.
\<close>

definition AddressLength :: nat where
  "AddressLength = 20"

definition BytesToAddress :: "bytes \<Rightarrow> bytes" where
  "BytesToAddress b0 =
     (let b = (if length b0 > AddressLength then drop (length b0 - AddressLength) b0 else b0)
      in replicate (AddressLength - length b) 0 @ b)"

definition HexToAddress :: "string \<Rightarrow> bytes" where
  "HexToAddress s = BytesToAddress (FromHex s)"

text \<open>\<^verbatim>\<open>Hash.Hex()\<close> is \<^verbatim>\<open>hexutil.Encode(h[:])\<close>: the prefix 0x and the lower-case digits.\<close>

definition HashHex :: "bytes \<Rightarrow> string" where
  "HashHex h = ''0x'' @ EncodeToString h"

text \<open>
  \<^verbatim>\<open>Address.Hex()\<close> is the EIP-55 checksum form: the lower-case digits are hashed with
  Keccak-256 (the parameter \<open>K\<close>, a function of go-ethereum's \<^verbatim>\<open>crypto\<close> package that
  is not part of this repository), and a letter is put in upper case where the matching
  nibble of the hash exceeds 7.
\<close>

definition hashNibble :: "bytes \<Rightarrow> nat \<Rightarrow> byte" where
  "hashNibble hash j =
     (if j mod 2 = 0 then drop_bit 4 (hash ! (j div 2)) else (hash ! (j div 2)) AND 0x0f)"

definition checksumChar :: "bytes \<Rightarrow> nat \<Rightarrow> char \<Rightarrow> char" where
  "checksumChar hash j c =
     (if (of_char c :: nat) > 57 \<and> hashNibble hash j > 7
      then char_of ((of_char c :: nat) - 32) else c)"

definition AddressHex :: "(bytes \<Rightarrow> bytes) \<Rightarrow> bytes \<Rightarrow> string" where
  "AddressHex K a =
     (let buf = EncodeToString a; hash = K (bytesOf buf)
      in ''0x'' @ map (\<lambda>j. checksumChar hash j (buf ! j)) [0 ..< length buf])"

text \<open>\<^verbatim>\<open>big.Int.SetBytes\<close>: the bytes read as a big-endian unsigned integer.\<close>

definition SetBytes :: "bytes \<Rightarrow> int" where
  "SetBytes buf = int (foldl (\<lambda>acc b. acc * 256 + unat b) 0 buf)"

text \<open>
  \<^verbatim>\<open>big.Int.Div\<close> is Euclidean division (the remainder is never negative) and panics
  on a zero divisor; \<open>None\<close> is that panic.
\<close>

definition Div :: "int \<Rightarrow> int \<Rightarrow> int option" where
  "Div x y =
     (if y = 0 then None
      else if y > 0 then Some (x div y)
      else Some (- (x div (- y))))"

text \<open>
  \<^verbatim>\<open>new(big.Int).Exp(x, y, nil)\<close> is \<open>x ^ y\<close>, and 1 when \<open>y \<le> 0\<close>.
\<close>

definition Exp :: "int \<Rightarrow> int \<Rightarrow> int" where
  "Exp x y = (if y \<le> 0 then 1 else x ^ nat y)"

text \<open>Decimal text: \<^verbatim>\<open>%d\<close> of an unsigned integer, and \<^verbatim>\<open>big.Int.String()\<close>.\<close>

fun decimal :: "nat \<Rightarrow> string" where
  "decimal n =
     (if n < 10 then [''0123456789'' ! n]
      else decimal (n div 10) @ [''0123456789'' ! (n mod 10)])"

definition IntString :: "int \<Rightarrow> string" where
  "IntString x = (if x < 0 then ''-'' @ decimal (nat (- x)) else decimal (nat x))"

section \<open>Errors, panics and the process\<close>

text \<open>
  The errors the two commands can meet. A failure of the RPC transport carries the
  transport's text; the failures of go-ethereum's \<^verbatim>\<open>abi\<close> and \<^verbatim>\<open>bind\<close> packages are
  named after the check that raises them; \<open>Errorf p e\<close> is
  \<^verbatim>\<open>fmt.Errorf(p + "%v", e)\<close>, the wrapped error whose text is \<open>p\<close> followed by the
  text of \<open>e\<close>.
\<close>

datatype error =
    Transport string
  | MethodNotFound string
  | ArgumentCountMismatch nat nat
  | TypeErr
  | ErrNoCode
  | ImproperlyFormattedOutput
  | CouldNotLocate string
  | EmptyOutput
  | LengthInsufficient nat nat
  | OffsetOverBoundary
  | OffsetTooLarge
  | SizeTooLarge
  | BadUint nat
  | Errorf string error

text \<open>
  A run-time panic of the Go program: an index out of range (index, length), a failed
  conversion of an interface value, a division by zero of \<^verbatim>\<open>big.Int\<close>.
\<close>

datatype panic = IndexOutOfRange nat nat | ConversionPanic | DivisionByZero

datatype 'a result = Ret 'a | Panic panic

text \<open>
  How a command ends: normally; by \<^verbatim>\<open>log.Fatalf(p + "%v", err)\<close>, which reports the
  message and exits with status 1; by a panic; or inside \<^verbatim>\<open>flag.Parse()\<close>, which exits
  with status 2 on a bad command line and with status 0 after printing the usage for
  \<^verbatim>\<open>-h\<close> or \<^verbatim>\<open>-help\<close>.
\<close>

datatype flagError =
    BadFlagSyntax string
  | NotDefined string
  | NeedsArgument string
  | InvalidValue string string

datatype exit = Success | Fatalf string error | Crash panic | FlagExit flagError | HelpExit

section \<open>The RPC transport\<close>

text \<open>
  A log entry and a filter query, with the fields the program reads and sets.
  \<^verbatim>\<open>FilterQuery.Topics\<close> is the field \<open>QueryTopics\<close>.
\<close>

record Log =
  Topics :: "bytes list"
  Data :: bytes
  BlockNumber :: "64 word"

record FilterQuery =
  FromBlock :: int
  ToBlock :: int
  Addresses :: "bytes list"
  QueryTopics :: "bytes list list"

text \<open>
  The client returned by \<^verbatim>\<open>ethclient.Dial\<close>, as the program uses it: a contract call
  (to an address, with input data), the code at an address, the number of the latest
  header, and a log query. Each answers with an error or a value, as a mock transport
  does.
\<close>

record Client =
  CallContract :: "bytes \<Rightarrow> bytes \<Rightarrow> error + bytes"
  CodeAt :: "bytes \<Rightarrow> error + bytes"
  HeaderByNumber :: "error + nat"
  FilterLogs :: "FilterQuery \<Rightarrow> error + Log list"

text \<open>
  The process state: what was printed on standard output (one entry per print call) and
  the requests sent to the network, in order.
\<close>

datatype request =
    ReqDial string
  | ReqCallContract bytes bytes
  | ReqCodeAt bytes
  | ReqHeaderByNumber
  | ReqFilterLogs FilterQuery

record World =
  stdout :: "string list"
  requests :: "request list"

definition Printf :: "string \<Rightarrow> World \<Rightarrow> World" where
  "Printf s w = w\<lparr>stdout := stdout w @ [s]\<rparr>"

definition send :: "request \<Rightarrow> World \<Rightarrow> World" where
  "send r w = w\<lparr>requests := requests w @ [r]\<rparr>"

section \<open>The interface codec\<close>

text \<open>
  Modelled from the spec: the interface codec of Section 4.2 (\<^verbatim>\<open>encodeCall\<close>,
  \<^verbatim>\<open>decodeResult\<close>) is go-ethereum's \<^verbatim>\<open>accounts/abi\<close> package, an external
  collaborator whose code is not among the sources. The definitions of this section
  follow that package for the types the two commands use: unsigned integers, addresses
  and strings. A value is what the package hands to Go: a \<^verbatim>\<open>uint8\<close> to
  \<^verbatim>\<open>uint64\<close> (\<open>FixedUintV bits v\<close>), a \<^verbatim>\<open>*big.Int\<close>, a
  \<^verbatim>\<open>common.Address\<close>, a \<^verbatim>\<open>string\<close>.
\<close>

datatype abiType = UintTy nat | AddressTy | StringTy

datatype abiValue = FixedUintV nat nat | BigIntV int | AddressV bytes | StringV string

record Method =
  Sig :: string
  ID :: bytes
  Inputs :: "abiType list"
  Outputs :: "abiType list"

type_synonym ABI = "(string \<times> Method) list"

fun typeName :: "abiType \<Rightarrow> string" where
  "typeName (UintTy n) = ''uint'' @ decimal n"
| "typeName AddressTy = ''address''"
| "typeName StringTy = ''string''"

fun joinComma :: "string list \<Rightarrow> string" where
  "joinComma [] = []"
| "joinComma [x] = x"
| "joinComma (x # y # ys) = x @ '','' @ joinComma (y # ys)"

text \<open>
  \<^verbatim>\<open>NewMethod\<close>: the signature is the name with the input types in parentheses, and the
  method id is the first four bytes of the signature's Keccak-256 hash \<open>K\<close>.
\<close>

definition NewMethod :: "(bytes \<Rightarrow> bytes) \<Rightarrow> string \<Rightarrow> abiType list \<Rightarrow> abiType list \<Rightarrow> Method" where
  "NewMethod K name ins outs =
     (let sig = name @ ''('' @ joinComma (map typeName ins) @ '')''
      in \<lparr>Sig = sig, ID = take 4 (K (bytesOf sig)), Inputs = ins, Outputs = outs\<rparr>)"

subsection \<open>Packing\<close>

fun bigEndian :: "nat \<Rightarrow> nat \<Rightarrow> bytes" where
  "bigEndian 0 v = []"
| "bigEndian (Suc n) v = bigEndian n (v div 256) @ [of_nat (v mod 256)]"

text \<open>\<^verbatim>\<open>math.U256Bytes\<close>: the value modulo \<open>2 ^ 256\<close>, as 32 big-endian bytes.\<close>

definition U256Bytes :: "int \<Rightarrow> bytes" where
  "U256Bytes v = bigEndian 32 (nat (v mod 2 ^ 256))"

definition LeftPadBytes :: "bytes \<Rightarrow> nat \<Rightarrow> bytes" where
  "LeftPadBytes b l = (if l \<le> length b then b else replicate (l - length b) 0 @ b)"

definition RightPadBytes :: "bytes \<Rightarrow> nat \<Rightarrow> bytes" where
  "RightPadBytes b l = (if l \<le> length b then b else b @ replicate (l - length b) 0)"

definition packBytesSlice :: "bytes \<Rightarrow> bytes" where
  "packBytesSlice b =
     (let l = length b in U256Bytes (int l) @ RightPadBytes b ((l + 31) div 32 * 32))"

definition isDynamicType :: "abiType \<Rightarrow> bool" where
  "isDynamicType t = (t = StringTy)"

text \<open>
  \<^verbatim>\<open>Type.pack\<close>: the type check compares the kind of the Go value with the kind the
  type maps to (\<^verbatim>\<open>uint8\<close> to \<^verbatim>\<open>uint64\<close> for those four sizes, a pointer for every
  other integer size, an array for an address, a string), then packs the element.
\<close>

fun pack :: "abiType \<Rightarrow> abiValue \<Rightarrow> error + bytes" where
  "pack (UintTy n) (FixedUintV m v) =
     (if n \<in> {8, 16, 32, 64} \<and> m = n then Inr (U256Bytes (int v)) else Inl TypeErr)"
| "pack (UintTy n) (BigIntV v) =
     (if n \<in> {8, 16, 32, 64} then Inl TypeErr else Inr (U256Bytes v))"
| "pack AddressTy (AddressV a) = Inr (LeftPadBytes a 32)"
| "pack StringTy (StringV s) = Inr (packBytesSlice (bytesOf s))"
| "pack _ _ = Inl TypeErr"

text \<open>
  The loop of \<^verbatim>\<open>Arguments.Pack\<close>: a static element is appended to the head, a dynamic
  one leaves its offset in the head and is appended to the tail.
\<close>

fun packLoop :: "abiType list \<Rightarrow> abiValue list \<Rightarrow> nat \<Rightarrow> bytes \<Rightarrow> bytes \<Rightarrow> error + bytes" where
  "packLoop (t # ts) (a # as) inputOffset ret variableInput =
     (case pack t a of
        Inl err \<Rightarrow> Inl err
      | Inr packed \<Rightarrow>
          if isDynamicType t
          then packLoop ts as (inputOffset + length packed)
                 (ret @ U256Bytes (int inputOffset)) (variableInput @ packed)
          else packLoop ts as inputOffset (ret @ packed) variableInput)"
| "packLoop _ _ inputOffset ret variableInput = Inr (ret @ variableInput)"

definition ArgumentsPack :: "abiType list \<Rightarrow> abiValue list \<Rightarrow> error + bytes" where
  "ArgumentsPack abiArgs args =
     (if length args \<noteq> length abiArgs
      then Inl (ArgumentCountMismatch (length args) (length abiArgs))
      else packLoop abiArgs args (32 * length abiArgs) [] [])"

text \<open>
  Modelled from the spec: \<^verbatim>\<open>encodeCall\<close> of Section 4.2, which is \<^verbatim>\<open>ABI.Pack\<close> of
  go-ethereum (not among the sources): the method is looked up by name, and the call
  data is its id followed by the packed arguments.
\<close>

definition Pack :: "ABI \<Rightarrow> string \<Rightarrow> abiValue list \<Rightarrow> error + bytes" where
  "Pack abi name args =
     (case map_of abi name of
        None \<Rightarrow> Inl (MethodNotFound name)
      | Some method \<Rightarrow>
          (case ArgumentsPack (Inputs method) args of
             Inl err \<Rightarrow> Inl err
           | Inr arguments \<Rightarrow> Inr (ID method @ arguments)))"

subsection \<open>Unpacking\<close>

text \<open>\<^verbatim>\<open>output[a : a+n]\<close>, used where the bounds were checked before.\<close>

definition sliceOf :: "bytes \<Rightarrow> nat \<Rightarrow> nat \<Rightarrow> bytes" where
  "sliceOf output a n = take n (drop a output)"

text \<open>
  \<^verbatim>\<open>lengthPrefixPointsTo\<close>: the word at \<open>index\<close> is the offset of a length word; the
  result is where the content starts and how long it is, after the bounds checks.
\<close>

definition lengthPrefixPointsTo :: "nat \<Rightarrow> bytes \<Rightarrow> error + (nat \<times> nat)" where
  "lengthPrefixPointsTo index output =
     (let bigOffsetEnd = SetBytes (sliceOf output index 32) + 32;
          outputLength = int (length output)
      in if bigOffsetEnd > outputLength then Inl OffsetOverBoundary
         else if bigOffsetEnd \<ge> 2 ^ 63 then Inl OffsetTooLarge
         else
           (let offsetEnd = nat bigOffsetEnd;
                lengthBig = SetBytes (sliceOf output (offsetEnd - 32) 32);
                totalSize = bigOffsetEnd + lengthBig
            in if totalSize \<ge> 2 ^ 63 then Inl SizeTooLarge
               else if totalSize > outputLength
               then Inl (LengthInsufficient (length output) (nat totalSize))
               else Inr (offsetEnd, nat lengthBig)))"

text \<open>
  \<^verbatim>\<open>ReadInteger\<close> for an unsigned type: a value that does not fit the Go type of the
  size is an error; sizes without a Go type give a \<^verbatim>\<open>*big.Int\<close>.
\<close>

definition ReadInteger :: "nat \<Rightarrow> bytes \<Rightarrow> error + abiValue" where
  "ReadInteger sz b =
     (let ret = SetBytes b
      in if sz \<in> {8, 16, 32, 64}
         then (if ret \<ge> 2 ^ sz then Inl (BadUint sz) else Inr (FixedUintV sz (nat ret)))
         else Inr (BigIntV ret))"

definition toGoType :: "nat \<Rightarrow> abiType \<Rightarrow> bytes \<Rightarrow> error + abiValue" where
  "toGoType index t output =
     (if index + 32 > length output
      then Inl (LengthInsufficient (length output) (index + 32))
      else
        (case t of
           StringTy \<Rightarrow>
             (case lengthPrefixPointsTo index output of
                Inl err \<Rightarrow> Inl err
              | Inr (begin, len) \<Rightarrow> Inr (StringV (stringOf (sliceOf output begin len))))
         | UintTy sz \<Rightarrow> ReadInteger sz (sliceOf output index 32)
         | AddressTy \<Rightarrow> Inr (AddressV (BytesToAddress (sliceOf output index 32)))))"

fun UnpackValues :: "abiType list \<Rightarrow> nat \<Rightarrow> bytes \<Rightarrow> error + abiValue list" where
  "UnpackValues [] i data = Inr []"
| "UnpackValues (t # ts) i data =
     (case toGoType (i * 32) t data of
        Inl err \<Rightarrow> Inl err
      | Inr v \<Rightarrow>
          (case UnpackValues ts (i + 1) data of
             Inl err \<Rightarrow> Inl err
           | Inr vs \<Rightarrow> Inr (v # vs)))"

definition ArgumentsUnpack :: "abiType list \<Rightarrow> bytes \<Rightarrow> error + abiValue list" where
  "ArgumentsUnpack arguments data =
     (if data = []
      then (if arguments \<noteq> [] then Inl EmptyOutput else Inr [])
      else UnpackValues arguments 0 data)"

text \<open>
  Modelled from the spec: \<^verbatim>\<open>decodeResult\<close> of Section 4.2, which is \<^verbatim>\<open>ABI.Unpack\<close> of
  go-ethereum (not among the sources): the method is looked up by name, the answer must
  be a whole number of 32-byte words, and one value is read per output type.
\<close>

definition Unpack :: "ABI \<Rightarrow> string \<Rightarrow> bytes \<Rightarrow> error + abiValue list" where
  "Unpack abi name data =
     (case map_of abi name of
        None \<Rightarrow> Inl (CouldNotLocate name)
      | Some method \<Rightarrow>
          if length data mod 32 \<noteq> 0 then Inl ImproperlyFormattedOutput
          else ArgumentsUnpack (Outputs method) data)"

text \<open>
  \<^verbatim>\<open>abi.JSON\<close> on a constant of the program. Both interface descriptions are
  well-formed JSON and are held here in parsed form, so parsing them succeeds; the
  error branches of the callers are kept as the source has them.
\<close>

definition JSON :: "ABI \<Rightarrow> error + ABI" where
  "JSON parsed = Inr parsed"

subsection \<open>A bound contract\<close>

text \<open>
  \<^verbatim>\<open>bind.BoundContract\<close> and its \<^verbatim>\<open>Call\<close> with empty call options: pack the input,
  send the call, on an empty answer make sure the address holds code, unpack the answer.
  The results are handed over only when no error is returned.
\<close>

record BoundContract =
  address :: bytes
  abi :: ABI
  caller :: Client

definition NewBoundContract :: "bytes \<Rightarrow> ABI \<Rightarrow> Client \<Rightarrow> BoundContract" where
  "NewBoundContract a parsed backend = \<lparr>address = a, abi = parsed, caller = backend\<rparr>"

definition Call :: "BoundContract \<Rightarrow> string \<Rightarrow> abiValue list \<Rightarrow> World \<Rightarrow> (error + abiValue list) \<times> World" where
  "Call c method params w =
     (case Pack (abi c) method params of
        Inl err \<Rightarrow> (Inl err, w)
      | Inr input \<Rightarrow>
          (let w1 = send (ReqCallContract (address c) input) w
           in case CallContract (caller c) (address c) input of
                Inl err \<Rightarrow> (Inl err, w1)
              | Inr output \<Rightarrow>
                  if output = []
                  then
                    (let w2 = send (ReqCodeAt (address c)) w1
                     in case CodeAt (caller c) (address c) of
                          Inl err \<Rightarrow> (Inl err, w2)
                        | Inr code \<Rightarrow>
                            if code = [] then (Inl ErrNoCode, w2)
                            else (Unpack (abi c) method output, w2))
                  else (Unpack (abi c) method output, w1)))"

section \<open>The token command (main.go)\<close>

definition USDC_CONTRACT_ADDRESS :: string where
  "USDC_CONTRACT_ADDRESS = ''0xA0b86991c6218b36c1d19D4a2e9Eb0cE3606eB48''"

definition TRANSFER_EVENT_SIGNATURE :: string where
  "TRANSFER_EVENT_SIGNATURE = ''Transfer(address,address,uint256)''"

text \<open>
  \<^verbatim>\<open>USDCABI\<close>, parsed. Of the interface description only the method the command calls
  is listed: \<^verbatim>\<open>Pack\<close> and \<^verbatim>\<open>Unpack\<close> look a method up by its name, so the other
  entries take no part in a run.
\<close>

definition USDCABI :: "(bytes \<Rightarrow> bytes) \<Rightarrow> ABI" where
  "USDCABI K = [(''decimals'', NewMethod K ''decimals'' [] [UintTy 8])]"

record usdcCaller =
  contract :: BoundContract

definition NewUSDC :: "(bytes \<Rightarrow> bytes) \<Rightarrow> bytes \<Rightarrow> Client \<Rightarrow> error + usdcCaller" where
  "NewUSDC K a backend =
     (case JSON (USDCABI K) of
        Inl err \<Rightarrow> Inl err
      | Inr parsed \<Rightarrow> Inr \<lparr>contract = NewBoundContract a parsed backend\<rparr>)"

text \<open>
  \<^verbatim>\<open>Decimals\<close> returns a Go pair: the value and the error (\<open>None\<close> is \<^verbatim>\<open>nil\<close>).
  \<^verbatim>\<open>out[0]\<close> panics on an empty result list and the conversion panics on a value that
  is not a \<^verbatim>\<open>uint8\<close>.
\<close>

definition Decimals :: "usdcCaller \<Rightarrow> World \<Rightarrow> (byte \<times> error option) result \<times> World" where
  "Decimals u w =
     (case Call (contract u) ''decimals'' [] w of
        (Inl err, w1) \<Rightarrow> (Ret (0, Some err), w1)
      | (Inr out, w1) \<Rightarrow>
          (case out of
             [] \<Rightarrow> (Panic (IndexOutOfRange 0 0), w1)
           | v # _ \<Rightarrow>
               (case v of
                  FixedUintV bits x \<Rightarrow>
                    if bits = 8 then (Ret (of_nat x, None), w1) else (Panic ConversionPanic, w1)
                | _ \<Rightarrow> (Panic ConversionPanic, w1))))"

text \<open>
  The body of the loop over the logs, up to the print: the local variables \<^verbatim>\<open>from\<close>,
  \<^verbatim>\<open>to\<close>, \<^verbatim>\<open>amount\<close> and \<^verbatim>\<open>transferType\<close> of one iteration. The two index
  expressions \<^verbatim>\<open>vLog.Topics[1]\<close> and \<^verbatim>\<open>vLog.Topics[2]\<close> panic when out of range.
\<close>

record Transfer =
  blockNumber :: "64 word"
  transferType :: string
  fromAddress :: bytes
  toAddress :: bytes
  amount :: int

definition decodeTransfer :: "int \<Rightarrow> Log \<Rightarrow> Transfer result" where
  "decodeTransfer divisor vLog =
     (if length (Topics vLog) \<le> 1 then Panic (IndexOutOfRange 1 (length (Topics vLog)))
      else
        (let fromA = HexToAddress (HashHex (Topics vLog ! 1))
         in if length (Topics vLog) \<le> 2 then Panic (IndexOutOfRange 2 (length (Topics vLog)))
            else
              (let toA = HexToAddress (HashHex (Topics vLog ! 2));
                   amount0 = SetBytes (Data vLog)
               in case Div amount0 divisor of
                    None \<Rightarrow> Panic DivisionByZero
                  | Some amount1 \<Rightarrow>
                      (let tType =
                             (if fromA = HexToAddress ''0x0000000000000000000000000000000000000000''
                              then ''Mint'' else ''Transfer'')
                       in Ret \<lparr>blockNumber = BlockNumber vLog, transferType = tType,
                                fromAddress = fromA, toAddress = toA, amount = amount1\<rparr>))))"

definition transferLine :: "(bytes \<Rightarrow> bytes) \<Rightarrow> Transfer \<Rightarrow> string" where
  "transferLine K r =
     ''Block #'' @ decimal (unat (blockNumber r)) @ '': '' @ transferType r
       @ '' from '' @ AddressHex K (fromAddress r) @ '' to '' @ AddressHex K (toAddress r)
       @ '', amount: '' @ IntString (amount r) @ '' USDC'' @ nl"

fun printTransfers :: "(bytes \<Rightarrow> bytes) \<Rightarrow> int \<Rightarrow> Log list \<Rightarrow> World \<Rightarrow> unit result \<times> World" where
  "printTransfers K divisor [] w = (Ret (), w)"
| "printTransfers K divisor (vLog # logs) w =
     (case decodeTransfer divisor vLog of
        Panic p \<Rightarrow> (Panic p, w)
      | Ret r \<Rightarrow> printTransfers K divisor logs (Printf (transferLine K r) w))"

definition foundLine :: "nat \<Rightarrow> 64 word \<Rightarrow> 64 word \<Rightarrow> string" where
  "foundLine n startBlock endBlock =
     ''Found '' @ decimal n @ '' USDC transfer records between blocks ''
       @ decimal (unat startBlock) @ '' and '' @ decimal (unat endBlock) @ nl"

text \<open>
  \<^verbatim>\<open>getUSDCTransfers\<close>. \<^verbatim>\<open>int64(startBlock)\<close> reads the 64 bits as a signed number
  (\<open>sint\<close>); \<^verbatim>\<open>int64(decimals)\<close> of a \<^verbatim>\<open>uint8\<close> is its unsigned value.
\<close>

definition getUSDCTransfers ::
  "(bytes \<Rightarrow> bytes) \<Rightarrow> Client \<Rightarrow> 64 word \<Rightarrow> 64 word \<Rightarrow> byte \<Rightarrow> World \<Rightarrow> error option result \<times> World" where
  "getUSDCTransfers K client startBlock endBlock decimals w =
     (let usdcAddress = HexToAddress USDC_CONTRACT_ADDRESS;
          transferSig = bytesOf TRANSFER_EVENT_SIGNATURE;
          transferTopic = K transferSig;
          query = \<lparr>FromBlock = sint startBlock, ToBlock = sint endBlock,
                   Addresses = [usdcAddress], QueryTopics = [[transferTopic]]\<rparr>;
          w1 = send (ReqFilterLogs query) w
      in case FilterLogs client query of
           Inl err \<Rightarrow> (Ret (Some (Errorf ''Failed to filter logs: '' err)), w1)
         | Inr logs \<Rightarrow>
             (let w2 = Printf (foundLine (length logs) startBlock endBlock) w1;
                  divisor = Exp 10 (uint decimals)
              in case printTransfers K divisor logs w2 of
                   (Panic p, w3) \<Rightarrow> (Panic p, w3)
                 | (Ret u, w3) \<Rightarrow> (Ret None, w3)))"

text \<open>
  \<^verbatim>\<open>main\<close> of main.go. \<open>dial\<close> is \<^verbatim>\<open>ethclient.Dial\<close>: the network as the command
  meets it. \<^verbatim>\<open>header.Number.Uint64()\<close> is the low 64 bits of the header's number.
  \<^verbatim>\<open>startBlock\<close> is a \<^verbatim>\<open>uint64\<close>: the subtraction wraps around and the comparison
  with 0 is unsigned.
\<close>

definition main_usdc :: "(bytes \<Rightarrow> bytes) \<Rightarrow> (string \<Rightarrow> error + Client) \<Rightarrow> World \<Rightarrow> exit \<times> World" where
  "main_usdc K dial w0 =
     (let w1 = send (ReqDial ''https://eth.llamarpc.com'') w0
      in case dial ''https://eth.llamarpc.com'' of
           Inl err \<Rightarrow> (Fatalf ''Failed to connect to the Ethereum mainnet: '' err, w1)
         | Inr client \<Rightarrow>
             (let usdcAddress = HexToAddress USDC_CONTRACT_ADDRESS
              in case NewUSDC K usdcAddress client of
                   Inl err \<Rightarrow> (Fatalf ''Failed to create USDC contract instance: '' err, w1)
                 | Inr usdc \<Rightarrow>
                     (case Decimals usdc w1 of
                        (Panic p, w2) \<Rightarrow> (Crash p, w2)
                      | (Ret (decimals, Some err), w2) \<Rightarrow>
                          (Fatalf ''Failed to get USDC decimal places: '' err, w2)
                      | (Ret (decimals, None), w2) \<Rightarrow>
                          (let w3 = Printf (''USDC decimal places: '' @ decimal (unat decimals) @ nl) w2;
                               w4 = send ReqHeaderByNumber w3
                           in case HeaderByNumber client of
                                Inl err \<Rightarrow> (Fatalf ''Failed to get the latest block number: '' err, w4)
                              | Inr number \<Rightarrow>
                                  (let latestBlock = (word_of_nat number :: 64 word);
                                       startBlock0 = latestBlock - 99;
                                       startBlock = (if startBlock0 < 0 then 0 else startBlock0)
                                   in case getUSDCTransfers K client startBlock latestBlock decimals w4 of
                                        (Panic p, w5) \<Rightarrow> (Crash p, w5)
                                      | (Ret (Some err), w5) \<Rightarrow>
                                          (Fatalf ''Failed to query USDC transfer records: '' err, w5)
                                      | (Ret None, w5) \<Rightarrow> (Success, w5))))))"

section \<open>The NFT command (the second main package)\<close>

subsection \<open>The command line\<close>

text \<open>
  Go's \<^verbatim>\<open>flag\<close> package, for a flag set that holds \<^verbatim>\<open>int64\<close> flags: \<open>formal\<close>
  maps a defined name to the current value of its variable, \<open>actual\<close> lists the names
  that were set, \<open>args\<close> is what remains of the command line. The parameter \<open>ParseInt\<close>
  is \<^verbatim>\<open>strconv.ParseInt(s, 0, 64)\<close>, nothing when the text is not an integer.
\<close>

record FlagSet =
  formal :: "(string \<times> 64 word) list"
  actual :: "string list"
  args :: "string list"

definition Int64 :: "string \<Rightarrow> 64 word \<Rightarrow> FlagSet \<Rightarrow> FlagSet" where
  "Int64 name v f = f\<lparr>formal := formal f @ [(name, v)]\<rparr>"

text \<open>Reading the variable that \<^verbatim>\<open>flag.Int64\<close> returned a pointer to.\<close>

definition deref :: "FlagSet \<Rightarrow> string \<Rightarrow> 64 word" where
  "deref f name = (case map_of (formal f) name of Some v \<Rightarrow> v | None \<Rightarrow> 0)"

text \<open>
  The split of \<^verbatim>\<open>name=value\<close> at the first equals sign that is not the first
  character.
\<close>

definition splitName :: "string \<Rightarrow> string \<times> string option" where
  "splitName name =
     (case name of
        [] \<Rightarrow> ([], None)
      | c # cs \<Rightarrow>
          if CHR ''='' \<in> set cs
          then (c # takeWhile (\<lambda>x. x \<noteq> CHR ''='') cs,
                Some (drop 1 (dropWhile (\<lambda>x. x \<noteq> CHR ''='') cs)))
          else (name, None))"

datatype parseStep = Seen FlagSet | Stop FlagSet | Failed flagError | Help

definition setFlag :: "(string \<Rightarrow> 64 word option) \<Rightarrow> FlagSet \<Rightarrow> string \<Rightarrow> string \<Rightarrow> string list \<Rightarrow> parseStep" where
  "setFlag ParseInt f name v rest =
     (case ParseInt v of
        None \<Rightarrow> Failed (InvalidValue v name)
      | Some x \<Rightarrow>
          Seen (f\<lparr>formal := map (\<lambda>(n, old). if n = name then (n, x) else (n, old)) (formal f),
                   actual := actual f @ [name], args := rest\<rparr>))"

definition parseOne :: "(string \<Rightarrow> 64 word option) \<Rightarrow> FlagSet \<Rightarrow> parseStep" where
  "parseOne ParseInt f =
     (case args f of
        [] \<Rightarrow> Stop f
      | s # rest \<Rightarrow>
          if length s < 2 \<or> s ! 0 \<noteq> CHR ''-'' then Stop f
          else if s ! 1 = CHR ''-'' \<and> length s = 2 then Stop (f\<lparr>args := rest\<rparr>)
          else
            (let numMinuses = (if s ! 1 = CHR ''-'' then 2 else 1 :: nat);
                 name0 = drop numMinuses s
             in if name0 = [] \<or> name0 ! 0 = CHR ''-'' \<or> name0 ! 0 = CHR ''=''
                then Failed (BadFlagSyntax s)
                else
                  (case splitName name0 of
                     (name, val) \<Rightarrow>
                       (case map_of (formal f) name of
                          None \<Rightarrow>
                            if name = ''help'' \<or> name = ''h'' then Help
                            else Failed (NotDefined name)
                        | Some old \<Rightarrow>
                            (case val of
                               Some v \<Rightarrow> setFlag ParseInt f name v rest
                             | None \<Rightarrow>
                                 (case rest of
                                    [] \<Rightarrow> Failed (NeedsArgument name)
                                  | v # rest' \<Rightarrow> setFlag ParseInt f name v rest'))))))"

text \<open>
  \<^verbatim>\<open>Parse\<close> with \<^verbatim>\<open>ExitOnError\<close>, the mode of \<^verbatim>\<open>flag.CommandLine\<close>: flags are read
  until the first argument that is not one; an error ends the process.
\<close>

function Parse :: "(string \<Rightarrow> 64 word option) \<Rightarrow> FlagSet \<Rightarrow> exit + FlagSet" where
  "Parse ParseInt f =
     (case parseOne ParseInt f of
        Seen f' \<Rightarrow> Parse ParseInt f'
      | Stop f' \<Rightarrow> Inr f'
      | Failed e \<Rightarrow> Inl (FlagExit e)
      | Help \<Rightarrow> Inl HelpExit)"
  by pat_completeness auto
termination
proof (relation "measure (\<lambda>(ParseInt, f). length (args f))")
  show "wf (measure (\<lambda>(ParseInt, f). length (args f)))"
    by simp
next
  fix ParseInt :: "string \<Rightarrow> 64 word option" and f f' :: FlagSet
  assume "parseOne ParseInt f = Seen f'"
  then have "length (args f') < length (args f)"
    by (auto simp: parseOne_def setFlag_def Let_def
          split: list.splits if_splits prod.splits option.splits)
  then show "((ParseInt, f'), (ParseInt, f)) \<in> measure (\<lambda>(ParseInt, f). length (args f))"
    by simp
qed

subsection \<open>The contract calls\<close>

definition NFT_CONTRACT_ADDRESS :: string where
  "NFT_CONTRACT_ADDRESS = ''0x0483b0dfc6c78062b9e999a82ffb795925381415''"

text \<open>
  \<^verbatim>\<open>NFT_ABI\<close>, parsed; of its entries the two methods the command calls are listed.
\<close>

definition NFT_ABI :: "(bytes \<Rightarrow> bytes) \<Rightarrow> ABI" where
  "NFT_ABI K =
     [(''ownerOf'', NewMethod K ''ownerOf'' [UintTy 256] [AddressTy]),
      (''tokenURI'', NewMethod K ''tokenURI'' [UintTy 256] [StringTy])]"

text \<open>
  The struct \<^verbatim>\<open>NFT\<close> of two function values. Each returns a Go pair, the value and the
  error. The call options are always empty and are left out.
\<close>

record NFT =
  OwnerOf :: "int \<Rightarrow> World \<Rightarrow> (bytes \<times> error option) result \<times> World"
  TokenURI :: "int \<Rightarrow> World \<Rightarrow> (string \<times> error option) result \<times> World"

text \<open>
  The two function literals that \<^verbatim>\<open>main\<close> binds to the contract.
  \<^verbatim>\<open>common.Address{}\<close> is the array of 20 zero bytes.
\<close>

definition bindOwnerOf :: "BoundContract \<Rightarrow> int \<Rightarrow> World \<Rightarrow> (bytes \<times> error option) result \<times> World" where
  "bindOwnerOf nftContract tokenId w =
     (case Call nftContract ''ownerOf'' [BigIntV tokenId] w of
        (Inl err, w1) \<Rightarrow> (Ret (replicate AddressLength 0, Some err), w1)
      | (Inr out, w1) \<Rightarrow>
          (case out of
             [] \<Rightarrow> (Panic (IndexOutOfRange 0 0), w1)
           | v # _ \<Rightarrow>
               (case v of
                  AddressV a \<Rightarrow> (Ret (a, None), w1)
                | _ \<Rightarrow> (Panic ConversionPanic, w1))))"

definition bindTokenURI :: "BoundContract \<Rightarrow> int \<Rightarrow> World \<Rightarrow> (string \<times> error option) result \<times> World" where
  "bindTokenURI nftContract tokenId w =
     (case Call nftContract ''tokenURI'' [BigIntV tokenId] w of
        (Inl err, w1) \<Rightarrow> (Ret ([], Some err), w1)
      | (Inr out, w1) \<Rightarrow>
          (case out of
             [] \<Rightarrow> (Panic (IndexOutOfRange 0 0), w1)
           | v # _ \<Rightarrow>
               (case v of
                  StringV s \<Rightarrow> (Ret (s, None), w1)
                | _ \<Rightarrow> (Panic ConversionPanic, w1))))"

definition getNFTInfo :: "(bytes \<Rightarrow> bytes) \<Rightarrow> NFT \<Rightarrow> int \<Rightarrow> World \<Rightarrow> error option result \<times> World" where
  "getNFTInfo K nft tokenId w0 =
     (let w1 = Printf (''start getting NFT info...'' @ nl) w0;
          w2 = Printf (''contract address: '' @ NFT_CONTRACT_ADDRESS @ nl) w1;
          w3 = Printf (''Token ID: '' @ IntString tokenId @ nl) w2
      in case OwnerOf nft tokenId w3 of
           (Panic p, w4) \<Rightarrow> (Panic p, w4)
         | (Ret (ownerAddress, Some err), w4) \<Rightarrow>
             (Ret (Some (Errorf ''get owner address failed: '' err)), w4)
         | (Ret (ownerAddress, None), w4) \<Rightarrow>
             (let w5 = Printf (''Token ID '' @ IntString tokenId @ '' owner address: ''
                                @ AddressHex K ownerAddress @ nl) w4
              in case TokenURI nft tokenId w5 of
                   (Panic p, w6) \<Rightarrow> (Panic p, w6)
                 | (Ret (tokenURI, Some err), w6) \<Rightarrow>
                     (Ret (Some (Errorf ''get metadata URI failed: '' err)), w6)
                 | (Ret (tokenURI, None), w6) \<Rightarrow>
                     (Ret None,
                      Printf (''Token ID '' @ IntString tokenId @ '' metadata URI: ''
                               @ tokenURI @ nl) w6)))"

text \<open>
  \<^verbatim>\<open>flag.CommandLine\<close> after \<^verbatim>\<open>flag.Int64("tokenId", 1, "tokenId to query")\<close>, the
  only flag definition of the program.
\<close>

definition CommandLine :: FlagSet where
  "CommandLine = Int64 ''tokenId'' 1 \<lparr>formal = [], actual = [], args = []\<rparr>"

text \<open>
  \<^verbatim>\<open>main\<close> of the NFT command; \<open>osArgs\<close> is \<^verbatim>\<open>os.Args[1:]\<close>.
  \<^verbatim>\<open>big.NewInt(*tokenId)\<close> is the signed value of the 64 bits.
\<close>

definition main_nft ::
  "(bytes \<Rightarrow> bytes) \<Rightarrow> (string \<Rightarrow> 64 word option) \<Rightarrow> (string \<Rightarrow> error + Client) \<Rightarrow> string list \<Rightarrow> World \<Rightarrow> exit \<times> World" where
  "main_nft K ParseInt dial osArgs w0 =
     (case Parse ParseInt (CommandLine\<lparr>args := osArgs\<rparr>) of
           Inl ex \<Rightarrow> (ex, w0)
         | Inr parsed \<Rightarrow>
             (let tokenId = deref parsed ''tokenId'';
                  w1 = send (ReqDial ''https://cloudflare-eth.com'') w0
              in case dial ''https://cloudflare-eth.com'' of
                   Inl err \<Rightarrow> (Fatalf ''connect to ethereum mainnet failed: '' err, w1)
                 | Inr client \<Rightarrow>
                     (let nftAddress = HexToAddress NFT_CONTRACT_ADDRESS
                      in case JSON (NFT_ABI K) of
                           Inl err \<Rightarrow> (Fatalf ''parse ABI failed: '' err, w1)
                         | Inr nftAbi \<Rightarrow>
                             (let nftContract = NewBoundContract nftAddress nftAbi client;
                                  nft = \<lparr>OwnerOf = bindOwnerOf nftContract,
                                         TokenURI = bindTokenURI nftContract\<rparr>
                              in case getNFTInfo K nft (sint tokenId) w1 of
                                   (Panic p, w2) \<Rightarrow> (Crash p, w2)
                                 | (Ret (Some err), w2) \<Rightarrow> (Fatalf ''get NFT info failed: '' err, w2)
                                 | (Ret None, w2) \<Rightarrow> (Success, w2)))))"

section \<open>Transports for the examples\<close>

text \<open>
  The concrete inputs of the examples below. \<open>exampleClient\<close> is a transport that answers
  every contract call by a function of the call's input data, reports a fixed latest
  block number and returns a fixed list of logs. \<open>exampleHash\<close> stands in for Keccak-256
  where an example needs a concrete function: the general theorems hold for every
  function \<open>K\<close>, and the examples do not depend on which one is chosen.
\<close>

definition exampleHash :: "bytes \<Rightarrow> bytes" where
  "exampleHash b = take 32 (b @ replicate 32 0)"

definition exampleClient :: "(bytes \<Rightarrow> error + bytes) \<Rightarrow> nat \<Rightarrow> Log list \<Rightarrow> Client" where
  "exampleClient answer head logs =
     \<lparr>CallContract = (\<lambda>to input. answer input), CodeAt = (\<lambda>a. Inr [0x60]),
      HeaderByNumber = Inr head, FilterLogs = (\<lambda>q. Inr logs)\<rparr>"

definition emptyWorld :: World where
  "emptyWorld = \<lparr>stdout = [], requests = []\<rparr>"

section \<open>Properties of the library functions\<close>

text \<open>
  The two recursive equations are used by name only: as rewrite rules without a guard they
  would unfold without end.
\<close>

declare decimal.simps [simp del]

declare Parse.simps [simp del]

subsection \<open>Hexadecimal text\<close>

lemma zero_addr: "HexToAddress ''0x0000000000000000000000000000000000000000'' = [0,0,0,0,0,0,0,0,0,0,0,0,0,0,0,0,0,0,0,0]"
  by (simp add: HexToAddress_def FromHex_def has0xPrefix_def BytesToAddress_def AddressLength_def fromHexChar_def)

lemma nibble_cases: "n < 16 \<Longrightarrow> n = 0 \<or> n = 1 \<or> n = 2 \<or> n = 3 \<or> n = 4 \<or> n = 5 \<or> n = 6 \<or> n = 7 \<or> n = 8 \<or> n = 9 \<or> n = 10 \<or> n = 11 \<or> n = 12 \<or> n = 13 \<or> n = 14 \<or> n = (15::nat)"
  by arith

lemma fromHexChar_hextable: "n < 16 \<Longrightarrow> fromHexChar (hextable ! n) = Some (of_nat n)"
  using nibble_cases[of n] by (auto simp: hextable_def fromHexChar_def)

lemma low_mask: "(0x0f :: byte) = mask 4"
  by (simp add: mask_eq_exp_minus_1)

lemma byte_split: "push_bit 4 (drop_bit 4 v) OR (v AND 0x0f) = (v :: byte)"
  unfolding low_mask
  by (rule bit_word_eqI) (auto simp: bit_simps)

lemma hi_lt: "unat (drop_bit 4 (v::byte)) < 16"
proof -
  have "unat (drop_bit 4 v) = drop_bit 4 (unat v)" by (rule unat_drop_bit_eq)
  also have "\<dots> = unat v div 2 ^ 4" by (simp only: drop_bit_eq_div)
  finally have "unat (drop_bit 4 v) = unat v div 2 ^ 4" .
  moreover have "unat v < 256" using unsigned_less[of v] by simp
  ultimately show ?thesis by simp
qed
lemma lo_lt: "unat ((v::byte) AND 0x0f) < 16"
proof -
  have "v AND mask 4 = take_bit 4 v" by (simp add: take_bit_eq_mask)
  moreover have "unat (take_bit 4 v) = take_bit 4 (unat v)" by (simp add: unsigned_take_bit_eq)
  moreover have "take_bit 4 (unat v) = unat v mod 2 ^ 4" by (simp only: take_bit_eq_mod)
  ultimately have "unat (v AND mask 4) = unat v mod 2 ^ 4" by simp
  then show ?thesis unfolding low_mask by simp
qed

lemma hexByte_decode: "Hex2Bytes (hexByte v @ rest) = v # Hex2Bytes rest"
  by (simp add: hexByte_def fromHexChar_hextable hi_lt lo_lt byte_split)

lemma Hex2Bytes_EncodeToString: "Hex2Bytes (EncodeToString bs) = bs"
  by (induction bs) (simp_all add: EncodeToString_def hexByte_decode)

lemma length_EncodeToString: "length (EncodeToString bs) = 2 * length bs"
  by (induction bs) (simp_all add: EncodeToString_def hexByte_def)

lemma FromHex_HashHex: "FromHex (HashHex h) = h"
  by (simp add: FromHex_def HashHex_def has0xPrefix_def length_EncodeToString Hex2Bytes_EncodeToString)

lemma HexToAddress_HashHex: "length h = 32 \<Longrightarrow> HexToAddress (HashHex h) = drop 12 h"
  by (simp add: HexToAddress_def FromHex_HashHex BytesToAddress_def AddressLength_def)

subsection \<open>Big-endian integers and the codec\<close>

lemma length_bigEndian: "length (bigEndian n v) = n"
  by (induction n arbitrary: v) simp_all

lemma beNat_bigEndian: "foldl (\<lambda>acc b. acc * 256 + unat b) 0 (bigEndian n v) = v mod 256 ^ n"
proof (induction n arbitrary: v)
  case 0
  then show ?case by simp
next
  case (Suc n)
  have "foldl (\<lambda>acc b. acc * 256 + unat b) 0 (bigEndian (Suc n) v)
        = (v div 256 mod 256 ^ n) * 256 + v mod 256"
    by (simp add: Suc unat_of_nat)
  also have "\<dots> = v mod 256 ^ Suc n"
    by (simp add: mod_mult2_eq)
  finally show ?case .
qed

lemma SetBytes_U256Bytes: "0 \<le> v \<Longrightarrow> v < 2 ^ 256 \<Longrightarrow> SetBytes (U256Bytes v) = v"
proof -
  assume a: "0 \<le> v" "v < 2 ^ 256"
  have p: "(256::nat) ^ 32 = 2 ^ 256" by simp
  have "nat v < 2 ^ 256" using a by (simp add: nat_less_iff)
  then have "nat v mod 256 ^ 32 = nat v" unfolding p by simp
  with a show ?thesis by (simp add: SetBytes_def U256Bytes_def beNat_bigEndian)
qed

lemma length_U256Bytes: "length (U256Bytes v) = 32"
  by (simp add: U256Bytes_def length_bigEndian)

lemma unat_of_char: "unat (of_char c :: byte) = (of_char c :: nat)"
proof -
  have "(of_char c :: byte) = of_nat (of_char c)" by (simp only: of_nat_of_char)
  then have "unat (of_char c :: byte) = (of_char c :: nat) mod 256" by (simp add: unat_of_nat)
  then show ?thesis by simp
qed

lemma stringOf_bytesOf: "stringOf (bytesOf s) = s"
  by (simp add: stringOf_def bytesOf_def comp_def unat_of_char)

lemma NewMethod_sel:
  "Inputs (NewMethod K name ins outs) = ins"
  "Outputs (NewMethod K name ins outs) = outs"
  "ID (NewMethod K name ins outs) = take 4 (K (bytesOf (name @ ''('' @ joinComma (map typeName ins) @ '')'')))"
  by (simp_all add: NewMethod_def Let_def)

lemma length_bytesOf: "length (bytesOf s) = length s"
  by (simp add: bytesOf_def)

lemma pack_address: "length a = AddressLength \<Longrightarrow> ArgumentsPack [AddressTy] [AddressV a] = Inr (replicate 12 0 @ a)"
  by (simp add: ArgumentsPack_def isDynamicType_def LeftPadBytes_def AddressLength_def)

lemma unpack_address:
  "length a = AddressLength \<Longrightarrow> Unpack (NFT_ABI K) ''ownerOf'' (replicate 12 0 @ a) = Inr [AddressV a]"
  by (simp add: Unpack_def NFT_ABI_def NewMethod_sel ArgumentsUnpack_def toGoType_def sliceOf_def
      BytesToAddress_def AddressLength_def)

lemma ceil32: "n \<le> (n + 31) div 32 * 32" "((n + 31) div 32 * 32) mod 32 = (0::nat)"
  by auto

lemma pack_string: "ArgumentsPack [StringTy] [StringV s] =
   Inr (U256Bytes 32 @ U256Bytes (int (length s)) @ bytesOf s @ replicate ((length s + 31) div 32 * 32 - length s) 0)"
  by (simp add: ArgumentsPack_def isDynamicType_def packBytesSlice_def RightPadBytes_def Let_def length_bytesOf)

lemma unpack_string:
  assumes "64 + length s < 2 ^ 63"
  shows "Unpack (NFT_ABI K) ''tokenURI''
     (U256Bytes 32 @ U256Bytes (int (length s)) @ bytesOf s @ replicate ((length s + 31) div 32 * 32 - length s) 0)
     = Inr [StringV s]"
proof -
  let ?pad = "replicate ((length s + 31) div 32 * 32 - length s) (0::byte)"
  let ?enc = "U256Bytes 32 @ U256Bytes (int (length s)) @ bytesOf s @ ?pad"
  have len: "length ?enc = 64 + (length s + 31) div 32 * 32"
    using ceil32(1)[of "length s"] by (simp add: length_U256Bytes length_bytesOf)
  have mod: "length ?enc mod 32 = 0"
    unfolding len by simp
  have s1: "sliceOf ?enc 0 32 = U256Bytes 32"
    by (simp add: sliceOf_def length_U256Bytes)
  have s2: "sliceOf ?enc 32 32 = U256Bytes (int (length s))"
    by (simp add: sliceOf_def length_U256Bytes)
  have s3: "sliceOf ?enc 64 (length s) = bytesOf s"
    by (simp add: sliceOf_def length_U256Bytes length_bytesOf)
  have b1: "SetBytes (U256Bytes 32) = 32"
    by (rule SetBytes_U256Bytes) simp_all
  have "int (length s) < 2 ^ 63" using assms by simp
  also have "(2::int) ^ 63 < 2 ^ 256" by simp
  finally have b2: "SetBytes (U256Bytes (int (length s))) = int (length s)"
    by (intro SetBytes_U256Bytes) simp_all
  have lp: "lengthPrefixPointsTo 0 ?enc = Inr (64, length s)"
    unfolding lengthPrefixPointsTo_def s1 b1 Let_def len
    using assms ceil32(1)[of "length s"] by (simp add: s2[simplified] b2)
  have ne: "?enc \<noteq> []" using length_U256Bytes[of 32] by auto
  show ?thesis
    unfolding Unpack_def NFT_ABI_def ArgumentsUnpack_def
    using mod ne lp len by (simp add: NewMethod_sel toGoType_def s3 stringOf_bytesOf)
qed

section \<open>The transfer records\<close>

subsection \<open>The loop over the logs\<close>

lemma Exp_10: "Exp 10 (uint d) = 10 ^ unat d"
proof (cases "d = 0")
  case True
  then show ?thesis by (simp add: Exp_def)
next
  case False
  then have "uint d \<noteq> 0" by (simp add: uint_0_iff)
  moreover have "0 \<le> uint d" by simp
  ultimately have "\<not> uint d \<le> 0" by linarith
  then show ?thesis by (simp add: Exp_def)
qed

lemma Div_pos: "0 < y \<Longrightarrow> Div x y = Some (x div y)"
  by (simp add: Div_def)

lemma decodeTransfer_ok:
  "3 \<le> length (Topics vLog) \<Longrightarrow> 0 < dv \<Longrightarrow>
   decodeTransfer dv vLog =
     Ret \<lparr>blockNumber = BlockNumber vLog,
          transferType = (if HexToAddress (HashHex (Topics vLog ! 1)) = HexToAddress ''0x0000000000000000000000000000000000000000'' then ''Mint'' else ''Transfer''),
          fromAddress = HexToAddress (HashHex (Topics vLog ! 1)),
          toAddress = HexToAddress (HashHex (Topics vLog ! 2)),
          amount = SetBytes (Data vLog) div dv\<rparr>"
  by (simp add: decodeTransfer_def Div_pos Let_def)

lemma decodeTransfer_short:
  "length (Topics vLog) < 3 \<Longrightarrow>
   decodeTransfer dv vLog =
     Panic (IndexOutOfRange (if length (Topics vLog) \<le> 1 then 1 else 2) (length (Topics vLog)))"
  by (simp add: decodeTransfer_def Let_def)

lemma printTransfers_requests: "requests (snd (printTransfers K dv logs w)) = requests w"
  by (induction logs arbitrary: w) (auto simp: Printf_def split: result.splits)

lemma printTransfers_ok:
  assumes "0 < dv" "\<forall>l \<in> set logs. 3 \<le> length (Topics l)"
  shows "\<exists>rs. map (decodeTransfer dv) logs = map Ret rs \<and>
            printTransfers K dv logs w = (Ret (), w\<lparr>stdout := stdout w @ map (transferLine K) rs\<rparr>)"
  using assms(2)
proof (induction logs arbitrary: w)
  case Nil
  then show ?case by simp
next
  case (Cons l logs)
  from Cons.prems assms(1) obtain r where r: "decodeTransfer dv l = Ret r"
    using decodeTransfer_ok[of l dv] by auto
  from Cons.prems have "\<forall>l \<in> set logs. 3 \<le> length (Topics l)" by simp
  from Cons.IH[OF this, of "Printf (transferLine K r) w"]
  obtain rs where rs: "map (decodeTransfer dv) logs = map Ret rs"
    "printTransfers K dv logs (Printf (transferLine K r) w)
       = (Ret (), (Printf (transferLine K r) w)\<lparr>stdout := stdout (Printf (transferLine K r) w) @ map (transferLine K) rs\<rparr>)"
    by blast
  show ?case
    using rs(2) by (intro exI[of _ "r # rs"]) (simp add: r rs(1) Printf_def)
qed

subsection \<open>The log query and the records\<close>

lemma usdc_addr: "HexToAddress USDC_CONTRACT_ADDRESS =
  [0xA0, 0xb8, 0x69, 0x91, 0xc6, 0x21, 0x8b, 0x36, 0xc1, 0xd1, 0x9D, 0x4a, 0x2e, 0x9E, 0xb0, 0xcE, 0x36, 0x06, 0xeB, 0x48]"
  by (simp add: HexToAddress_def USDC_CONTRACT_ADDRESS_def FromHex_def has0xPrefix_def BytesToAddress_def AddressLength_def fromHexChar_def)

lemma Exp_10_pos: "0 < Exp 10 (uint d)"
  by (simp add: Exp_10)

lemma getUSDCTransfers_requests:
  "requests (snd (getUSDCTransfers K client startBlock endBlock decimals w)) =
     requests w @ [ReqFilterLogs \<lparr>FromBlock = sint startBlock, ToBlock = sint endBlock,
        Addresses = [HexToAddress USDC_CONTRACT_ADDRESS],
        QueryTopics = [[K (bytesOf TRANSFER_EVENT_SIGNATURE)]]\<rparr>]"
proof -
  let ?q = "\<lparr>FromBlock = sint startBlock, ToBlock = sint endBlock,
        Addresses = [HexToAddress USDC_CONTRACT_ADDRESS],
        QueryTopics = [[K (bytesOf TRANSFER_EVENT_SIGNATURE)]]\<rparr>"
  show ?thesis
  proof (cases "FilterLogs client ?q")
    case (Inl err)
    then show ?thesis by (simp add: getUSDCTransfers_def send_def)
  next
    case (Inr logs)
    let ?w2 = "Printf (foundLine (length logs) startBlock endBlock) (send (ReqFilterLogs ?q) w)"
    have "requests (snd (printTransfers K (Exp 10 (uint decimals)) logs ?w2)) = requests ?w2"
      by (rule printTransfers_requests)
    then show ?thesis using Inr
      by (cases "printTransfers K (Exp 10 (uint decimals)) logs ?w2")
         (auto simp: getUSDCTransfers_def send_def Printf_def Let_def split: result.splits)
  qed
qed

text \<open>
  Claim C4. For every block range, every transport and every hash function \<open>K\<close>,
  \<^verbatim>\<open>getUSDCTransfers\<close> sends exactly one request, a log query whose topic match list
  has one position holding the single hash \<open>K\<close> of the signature
  \<^verbatim>\<open>Transfer(address,address,uint256)\<close> and no other topic, and whose address list holds
  exactly the USDC contract address.
\<close>

theorem filter_query_topics_and_address:
  "requests (snd (getUSDCTransfers K client startBlock endBlock decimals w)) =
     requests w @ [ReqFilterLogs \<lparr>FromBlock = sint startBlock, ToBlock = sint endBlock,
        Addresses = [[0xA0, 0xb8, 0x69, 0x91, 0xc6, 0x21, 0x8b, 0x36, 0xc1, 0xd1,
                      0x9D, 0x4a, 0x2e, 0x9E, 0xb0, 0xcE, 0x36, 0x06, 0xeB, 0x48]],
        QueryTopics = [[K (bytesOf ''Transfer(address,address,uint256)'')]]\<rparr>]"
  using getUSDCTransfers_requests[of K client startBlock endBlock decimals w]
  by (simp only: usdc_addr TRANSFER_EVENT_SIGNATURE_def)

text \<open>
  Claim C5. For every log entry for which the loop body produces a record, the sender of
  the record is the address decoded from the second topic, and the record is labelled
  \<^verbatim>\<open>Mint\<close> if and only if that sender is the all-zero address and \<^verbatim>\<open>Transfer\<close> if and
  only if it is not. The labels are written as the program prints them.
\<close>

theorem transfer_classification:
  assumes "decodeTransfer dv vLog = Ret r"
  shows "fromAddress r = HexToAddress (HashHex (Topics vLog ! 1)) \<and>
         (transferType r = ''Mint'' \<longleftrightarrow> fromAddress r = replicate 20 0) \<and>
         (transferType r = ''Transfer'' \<longleftrightarrow> fromAddress r \<noteq> replicate 20 0)"
proof -
  have z: "HexToAddress ''0x0000000000000000000000000000000000000000'' = replicate 20 0"
    by (simp add: zero_addr numeral_eq_Suc)
  from assms show ?thesis
    by (auto simp: decodeTransfer_def Let_def z split: if_splits option.splits)
qed

text \<open>
  Claim C9. The sender and the recipient of a record are the low-order 20 bytes of the
  32-byte topics 1 and 2; the high-order 12 bytes are dropped without any check, so two
  logs whose topics agree on the low-order 20 bytes give the same addresses.
\<close>

theorem topic_address_low_bytes:
  assumes "decodeTransfer dv l1 = Ret r1" and "decodeTransfer dv l2 = Ret r2"
    and "length (Topics l1 ! 1) = 32" and "length (Topics l1 ! 2) = 32"
    and "length (Topics l2 ! 1) = 32" and "length (Topics l2 ! 2) = 32"
  shows "fromAddress r1 = drop 12 (Topics l1 ! 1) \<and> toAddress r1 = drop 12 (Topics l1 ! 2) \<and>
         (drop 12 (Topics l1 ! 1) = drop 12 (Topics l2 ! 1) \<longrightarrow> fromAddress r1 = fromAddress r2) \<and>
         (drop 12 (Topics l1 ! 2) = drop 12 (Topics l2 ! 2) \<longrightarrow> toAddress r1 = toAddress r2)"
proof -
  have a: "fromAddress r = HexToAddress (HashHex (Topics l ! 1)) \<and> toAddress r = HexToAddress (HashHex (Topics l ! 2))"
    if "decodeTransfer dv l = Ret r" for l r
    using that by (auto simp: decodeTransfer_def Let_def split: if_splits option.splits)
  show ?thesis
    using a[OF assms(1)] a[OF assms(2)] assms(3-6) by (simp add: HexToAddress_HashHex)
qed

lemma printTransfers_index_panic:
  assumes "0 < dv" "\<exists>l \<in> set logs. length (Topics l) < 3"
  shows "\<exists>i n. fst (printTransfers K dv logs w) = Panic (IndexOutOfRange i n) \<and> n \<le> i \<and> i < 3"
  using assms(2)
proof (induction logs arbitrary: w)
  case Nil
  then show ?case by simp
next
  case (Cons l logs)
  show ?case
  proof (cases "length (Topics l) < 3")
    case True
    then show ?thesis by (auto simp: decodeTransfer_short)
  next
    case False
    then have "3 \<le> length (Topics l)" by simp
    from decodeTransfer_ok[OF this assms(1)] obtain r where r: "decodeTransfer dv l = Ret r" by blast
    from False Cons.prems have "\<exists>l \<in> set logs. length (Topics l) < 3" by auto
    from Cons.IH[OF this] r show ?thesis by simp
  qed
qed

text \<open>
  Claim C8. \<^verbatim>\<open>getUSDCTransfers\<close> reads topics 1 and 2 of every returned log with no
  check of the length. When every returned log has at least three topics the run ends
  without a panic; when some returned log has fewer than three, the run panics with an
  index (1 or 2) that is out of range for the length of the topic list.
\<close>

theorem topics_index_bounds:
  assumes "FilterLogs client \<lparr>FromBlock = sint startBlock, ToBlock = sint endBlock,
        Addresses = [HexToAddress USDC_CONTRACT_ADDRESS],
        QueryTopics = [[K (bytesOf TRANSFER_EVENT_SIGNATURE)]]\<rparr> = Inr logs"
  shows "((\<forall>l \<in> set logs. 3 \<le> length (Topics l)) \<longrightarrow>
            fst (getUSDCTransfers K client startBlock endBlock decimals w) = Ret None) \<and>
         ((\<exists>l \<in> set logs. length (Topics l) < 3) \<longrightarrow>
            (\<exists>i n. fst (getUSDCTransfers K client startBlock endBlock decimals w)
                      = Panic (IndexOutOfRange i n) \<and> n \<le> i \<and> i < 3))"
proof (intro conjI impI)
  let ?w2 = "Printf (foundLine (length logs) startBlock endBlock)
      (send (ReqFilterLogs \<lparr>FromBlock = sint startBlock, ToBlock = sint endBlock,
        Addresses = [HexToAddress USDC_CONTRACT_ADDRESS],
        QueryTopics = [[K (bytesOf TRANSFER_EVENT_SIGNATURE)]]\<rparr>) w)"
  {
    assume "\<forall>l \<in> set logs. 3 \<le> length (Topics l)"
    from printTransfers_ok[OF Exp_10_pos[of decimals] this, where K=K and w="?w2"]
    show "fst (getUSDCTransfers K client startBlock endBlock decimals w) = Ret None"
      using assms by (auto simp: getUSDCTransfers_def Let_def)
  next
    assume "\<exists>l \<in> set logs. length (Topics l) < 3"
    from printTransfers_index_panic[OF Exp_10_pos[of decimals] this, where K=K and w="?w2"]
    obtain i n where "fst (printTransfers K (Exp 10 (uint decimals)) logs ?w2) = Panic (IndexOutOfRange i n)" "n \<le> i" "i < 3"
      by blast
    then show "\<exists>i n. fst (getUSDCTransfers K client startBlock endBlock decimals w)
                      = Panic (IndexOutOfRange i n) \<and> n \<le> i \<and> i < 3"
      using assms
      by (cases "printTransfers K (Exp 10 (uint decimals)) logs ?w2")
         (auto simp: getUSDCTransfers_def Let_def)
  }
qed

text \<open>
  Claim C2, amended. For every decimals value \<open>d\<close> and every list of logs returned by
  the transport in which each log has at least three topics, \<^verbatim>\<open>getUSDCTransfers\<close>
  returns without error after printing the summary line followed by exactly one line
  per log, in the order the transport returned them; the amount printed on the line of a
  log is the decimal text of the big-endian value of its data divided by \<open>10 ^ d\<close>, with
  integer (floor) division.
\<close>

theorem transfers_one_record_per_log:
  assumes "FilterLogs client \<lparr>FromBlock = sint startBlock, ToBlock = sint endBlock,
        Addresses = [HexToAddress USDC_CONTRACT_ADDRESS],
        QueryTopics = [[K (bytesOf TRANSFER_EVENT_SIGNATURE)]]\<rparr> = Inr logs"
    and "\<forall>l \<in> set logs. 3 \<le> length (Topics l)"
  shows "\<exists>rs. length rs = length logs \<and>
           (\<forall>i < length logs.
               decodeTransfer (10 ^ unat decimals) (logs ! i) = Ret (rs ! i) \<and>
               blockNumber (rs ! i) = BlockNumber (logs ! i) \<and>
               amount (rs ! i) = SetBytes (Data (logs ! i)) div 10 ^ unat decimals \<and>
               (\<exists>pre. transferLine K (rs ! i) =
                  pre @ '', amount: ''
                    @ IntString (SetBytes (Data (logs ! i)) div 10 ^ unat decimals)
                    @ '' USDC'' @ nl)) \<and>
           getUSDCTransfers K client startBlock endBlock decimals w =
             (Ret None,
              w\<lparr>stdout := stdout w @ foundLine (length logs) startBlock endBlock
                               # map (transferLine K) rs,
                requests := requests w @ [ReqFilterLogs \<lparr>FromBlock = sint startBlock,
                   ToBlock = sint endBlock, Addresses = [HexToAddress USDC_CONTRACT_ADDRESS],
                   QueryTopics = [[K (bytesOf TRANSFER_EVENT_SIGNATURE)]]\<rparr>]\<rparr>)"
proof -
  let ?q = "\<lparr>FromBlock = sint startBlock, ToBlock = sint endBlock,
        Addresses = [HexToAddress USDC_CONTRACT_ADDRESS],
        QueryTopics = [[K (bytesOf TRANSFER_EVENT_SIGNATURE)]]\<rparr>"
  let ?w2 = "Printf (foundLine (length logs) startBlock endBlock) (send (ReqFilterLogs ?q) w)"
  let ?dv = "(10::int) ^ unat decimals"
  have dv: "0 < ?dv" by simp
  from printTransfers_ok[OF dv assms(2), where K=K and w="?w2"]
  obtain rs where rs: "map (decodeTransfer ?dv) logs = map Ret rs"
    and pt: "printTransfers K ?dv logs ?w2 = (Ret (), ?w2\<lparr>stdout := stdout ?w2 @ map (transferLine K) rs\<rparr>)"
    by blast
  from rs have len: "length rs = length logs"
    by (metis length_map)
  have each: "decodeTransfer ?dv (logs ! i) = Ret (rs ! i)" if "i < length logs" for i
    using rs that len by (metis nth_map)
  have props: "blockNumber (rs ! i) = BlockNumber (logs ! i) \<and>
               amount (rs ! i) = SetBytes (Data (logs ! i)) div ?dv" if "i < length logs" for i
  proof -
    from that assms(2) have "3 \<le> length (Topics (logs ! i))" by simp
    from decodeTransfer_ok[OF this dv] each[OF that] show ?thesis by simp
  qed
  have line: "\<exists>pre. transferLine K (rs ! i) =
      pre @ '', amount: '' @ IntString (SetBytes (Data (logs ! i)) div ?dv) @ '' USDC'' @ nl"
    if "i < length logs" for i
  proof -
    have "transferLine K (rs ! i) =
        (''Block #'' @ decimal (unat (blockNumber (rs ! i))) @ '': '' @ transferType (rs ! i)
           @ '' from '' @ AddressHex K (fromAddress (rs ! i)) @ '' to ''
           @ AddressHex K (toAddress (rs ! i)))
        @ '', amount: '' @ IntString (amount (rs ! i)) @ '' USDC'' @ nl"
      by (simp add: transferLine_def)
    with props[OF that] show ?thesis by metis
  qed
  have run: "getUSDCTransfers K client startBlock endBlock decimals w =
      (Ret None, ?w2\<lparr>stdout := stdout ?w2 @ map (transferLine K) rs\<rparr>)"
    using assms(1) pt by (simp add: getUSDCTransfers_def Let_def Exp_10)
  show ?thesis
    using len each props line run by (intro exI[of _ rs]) (simp add: Printf_def send_def)
qed

section \<open>Contract calls\<close>

lemma Pack_decimals: "Pack (USDCABI K) ''decimals'' [] = Inr (take 4 (K (bytesOf ''decimals()'')))"
  by (simp add: Pack_def USDCABI_def NewMethod_sel ArgumentsPack_def)

lemma Pack_ownerOf:
  "Pack (NFT_ABI K) ''ownerOf'' [BigIntV t] = Inr (take 4 (K (bytesOf ''ownerOf(uint256)'')) @ U256Bytes t)"
  by (simp add: Pack_def NFT_ABI_def NewMethod_sel ArgumentsPack_def isDynamicType_def decimal.simps)

lemma Pack_tokenURI:
  "Pack (NFT_ABI K) ''tokenURI'' [BigIntV t] = Inr (take 4 (K (bytesOf ''tokenURI(uint256)'')) @ U256Bytes t)"
  by (simp add: Pack_def NFT_ABI_def NewMethod_sel ArgumentsPack_def isDynamicType_def decimal.simps)

lemma Call_transport_error:
  assumes "Pack (abi c) method params = Inr input"
    and "CallContract (caller c) (address c) input = Inl err"
  shows "Call c method params w = (Inl err, send (ReqCallContract (address c) input) w)"
  using assms by (simp add: Call_def)

lemma Call_answer:
  assumes "Pack (abi c) method params = Inr input"
    and "CallContract (caller c) (address c) input = Inr output" and "output \<noteq> []"
  shows "Call c method params w =
           (Unpack (abi c) method output, send (ReqCallContract (address c) input) w)"
  using assms by (simp add: Call_def)

lemma NewBoundContract_sel:
  "address (NewBoundContract a parsed backend) = a"
  "abi (NewBoundContract a parsed backend) = parsed"
  "caller (NewBoundContract a parsed backend) = backend"
  by (simp_all add: NewBoundContract_def)

lemma unpack_decimals:
  "Unpack (USDCABI K) ''decimals'' (U256Bytes (uint d)) = Inr [FixedUintV 8 (unat (d :: byte))]"
proof -
  have u: "uint d < 2 ^ 8" using uint_bounded[of d] by simp
  also have "(2::int) ^ 8 < 2 ^ 256" by simp
  finally have sb: "SetBytes (U256Bytes (uint d)) = uint d"
    by (intro SetBytes_U256Bytes) simp_all
  have ne: "U256Bytes (uint d) \<noteq> []" using length_U256Bytes[of "uint d"] by auto
  have sl: "sliceOf (U256Bytes (uint d)) 0 32 = U256Bytes (uint d)"
    by (simp add: sliceOf_def length_U256Bytes)
  show ?thesis using ne u
    by (simp add: Unpack_def USDCABI_def NewMethod_sel ArgumentsUnpack_def toGoType_def
        length_U256Bytes ReadInteger_def sl sb)
qed

lemma Decimals_answer:
  assumes "CallContract client a (take 4 (K (bytesOf ''decimals()''))) = Inr (U256Bytes (uint d))"
  shows "Decimals \<lparr>contract = NewBoundContract a (USDCABI K) client\<rparr> w =
           (Ret (d, None), send (ReqCallContract a (take 4 (K (bytesOf ''decimals()'')))) w)"
proof -
  have ne: "U256Bytes (uint d) \<noteq> []" using length_U256Bytes[of "uint d"] by auto
  have "Call (NewBoundContract a (USDCABI K) client) ''decimals'' [] w =
          (Inr [FixedUintV 8 (unat d)], send (ReqCallContract a (take 4 (K (bytesOf ''decimals()'')))) w)"
    using Call_answer[of "NewBoundContract a (USDCABI K) client" "''decimals''" "[]" _ "U256Bytes (uint d)" w]
      assms ne by (simp add: NewBoundContract_sel Pack_decimals unpack_decimals)
  then show ?thesis by (simp add: Decimals_def)
qed

section \<open>The default block range\<close>

lemma sint_small: "H < 99 \<Longrightarrow> sint (word_of_nat H - 99 :: 64 word) = int H - 99"
proof -
  assume h: "H < 99"
  have "(word_of_nat H - 99 :: 64 word) = word_of_int (int H - 99)" by simp
  moreover have "signed_take_bit 63 (int H - 99) = int H - 99"
    using h by (intro signed_take_bit_int_eq_self) simp_all
  ultimately show ?thesis by (simp only: sint_sbintrunc') simp
qed

lemma sint_head: "H < 2 ^ 63 \<Longrightarrow> sint (word_of_nat H :: 64 word) = int H"
proof -
  assume h: "H < 2 ^ 63"
  have "(word_of_nat H :: 64 word) = word_of_int (int H)" by simp
  moreover have "signed_take_bit 63 (int H) = int H"
    using h by (intro signed_take_bit_int_eq_self) simp_all
  ultimately show ?thesis by (simp only: sint_sbintrunc') simp
qed

lemma main_usdc_requests:
  assumes "dial ''https://eth.llamarpc.com'' = Inr client"
    and "Decimals \<lparr>contract = NewBoundContract (HexToAddress USDC_CONTRACT_ADDRESS) (USDCABI K) client\<rparr>
           (send (ReqDial ''https://eth.llamarpc.com'') w0) = (Ret (d, None), w2)"
    and "HeaderByNumber client = Inr H"
  shows "requests (snd (main_usdc K dial w0)) =
           requests w2 @ [ReqHeaderByNumber,
             ReqFilterLogs \<lparr>FromBlock = sint (word_of_nat H - 99 :: 64 word),
               ToBlock = sint (word_of_nat H :: 64 word),
               Addresses = [HexToAddress USDC_CONTRACT_ADDRESS],
               QueryTopics = [[K (bytesOf TRANSFER_EVENT_SIGNATURE)]]\<rparr>]"
proof -
  let ?w4 = "send ReqHeaderByNumber (Printf (''USDC decimal places: '' @ decimal (unat d) @ nl) w2)"
  let ?run = "getUSDCTransfers K client (word_of_nat H - 99) (word_of_nat H) d ?w4"
  have nz: "\<not> ((word_of_nat H - 99 :: 64 word) < 0)" by simp
  have m: "main_usdc K dial w0 =
      (case ?run of
         (Panic p, w5) \<Rightarrow> (Crash p, w5)
       | (Ret (Some err), w5) \<Rightarrow> (Fatalf ''Failed to query USDC transfer records: '' err, w5)
       | (Ret None, w5) \<Rightarrow> (Success, w5))"
    using assms nz by (simp add: main_usdc_def NewUSDC_def JSON_def Let_def)
  have "requests (snd (main_usdc K dial w0)) = requests (snd ?run)"
    unfolding m by (auto split: prod.splits result.splits option.splits)
  then show ?thesis
    by (simp add: getUSDCTransfers_requests send_def Printf_def)
qed

text \<open>
  Claim C1 fails on the code for a chain head below 99. For every head \<open>H < 99\<close> the
  subtraction \<^verbatim>\<open>latestBlock - 99\<close> wraps around in \<^verbatim>\<open>uint64\<close>, the test
  \<^verbatim>\<open>startBlock < 0\<close> is never true, and the query is sent with the start block
  \<open>H - 99\<close>, a negative number, instead of 0.
\<close>

theorem start_block_not_clamped:
  assumes "dial ''https://eth.llamarpc.com'' = Inr client"
    and "Decimals \<lparr>contract = NewBoundContract (HexToAddress USDC_CONTRACT_ADDRESS) (USDCABI K) client\<rparr>
           (send (ReqDial ''https://eth.llamarpc.com'') w0) = (Ret (d, None), w2)"
    and "HeaderByNumber client = Inr H" and "H < 99"
  shows "requests (snd (main_usdc K dial w0)) =
           requests w2 @ [ReqHeaderByNumber,
             ReqFilterLogs \<lparr>FromBlock = int H - 99, ToBlock = int H,
               Addresses = [HexToAddress USDC_CONTRACT_ADDRESS],
               QueryTopics = [[K (bytesOf TRANSFER_EVENT_SIGNATURE)]]\<rparr>]"
proof -
  from assms(4) have "H < 2 ^ 63" by simp
  then show ?thesis
    using main_usdc_requests[where dial=dial and K=K, OF assms(1-3)] assms(4) by (simp add: sint_small sint_head)
qed

text \<open>
  For a head of at least 99 (and below \<open>2 ^ 63\<close>) the range is the last 100 blocks.
\<close>

lemma start_block_high:
  assumes "dial ''https://eth.llamarpc.com'' = Inr client"
    and "Decimals \<lparr>contract = NewBoundContract (HexToAddress USDC_CONTRACT_ADDRESS) (USDCABI K) client\<rparr>
           (send (ReqDial ''https://eth.llamarpc.com'') w0) = (Ret (d, None), w2)"
    and "HeaderByNumber client = Inr H" and "99 \<le> H" and "H < 2 ^ 63"
  shows "requests (snd (main_usdc K dial w0)) =
           requests w2 @ [ReqHeaderByNumber,
             ReqFilterLogs \<lparr>FromBlock = int H - 99, ToBlock = int H,
               Addresses = [HexToAddress USDC_CONTRACT_ADDRESS],
               QueryTopics = [[K (bytesOf TRANSFER_EVENT_SIGNATURE)]]\<rparr>]"
proof -
  have "(word_of_nat H - 99 :: 64 word) = word_of_nat (H - 99)"
    using assms(4) by (simp add: of_nat_diff)
  moreover have "sint (word_of_nat (H - 99) :: 64 word) = int (H - 99)"
    using assms(5) by (intro sint_head) simp
  ultimately show ?thesis
    using main_usdc_requests[where dial=dial and K=K, OF assms(1-3)] assms(4,5) by (simp add: sint_head of_nat_diff)
qed

section \<open>The typed accessors\<close>

text \<open>
  Claim C10. Whenever the underlying contract call fails with an error, each typed
  accessor returns the zero value of its result type together with that error:
  \<^verbatim>\<open>Decimals\<close> returns 0, \<^verbatim>\<open>OwnerOf\<close> the all-zero address and \<^verbatim>\<open>TokenURI\<close> the
  empty string.
\<close>

theorem accessors_zero_value_on_error:
  "(Call (contract u) ''decimals'' [] w = (Inl err, w') \<longrightarrow>
      Decimals u w = (Ret (0, Some err), w')) \<and>
   (Call c ''ownerOf'' [BigIntV tokenId] w = (Inl err, w') \<longrightarrow>
      bindOwnerOf c tokenId w = (Ret (replicate 20 0, Some err), w')) \<and>
   (Call c ''tokenURI'' [BigIntV tokenId] w = (Inl err, w') \<longrightarrow>
      bindTokenURI c tokenId w = (Ret ([], Some err), w'))"
  by (simp add: Decimals_def bindOwnerOf_def bindTokenURI_def AddressLength_def)

lemma bindOwnerOf_answer:
  assumes "length a = AddressLength"
    and "CallContract client addr (take 4 (K (bytesOf ''ownerOf(uint256)'')) @ U256Bytes tokenId)
           = ArgumentsPack [AddressTy] [AddressV a]"
  shows "bindOwnerOf (NewBoundContract addr (NFT_ABI K) client) tokenId w =
           (Ret (a, None),
            send (ReqCallContract addr (take 4 (K (bytesOf ''ownerOf(uint256)'')) @ U256Bytes tokenId)) w)"
proof -
  let ?c = "NewBoundContract addr (NFT_ABI K) client"
  let ?input = "take 4 (K (bytesOf ''ownerOf(uint256)'')) @ U256Bytes tokenId"
  have ans: "CallContract (caller ?c) (address ?c) ?input = Inr (replicate 12 0 @ a)"
    using assms by (simp add: NewBoundContract_sel pack_address)
  have "Call ?c ''ownerOf'' [BigIntV tokenId] w =
          (Unpack (abi ?c) ''ownerOf'' (replicate 12 0 @ a), send (ReqCallContract (address ?c) ?input) w)"
    by (rule Call_answer[OF _ ans]) (simp_all add: NewBoundContract_sel Pack_ownerOf)
  then show ?thesis
    using assms(1) by (simp add: bindOwnerOf_def NewBoundContract_sel unpack_address)
qed

lemma bindTokenURI_answer:
  assumes "64 + length s < 2 ^ 63"
    and "CallContract client addr (take 4 (K (bytesOf ''tokenURI(uint256)'')) @ U256Bytes tokenId)
           = ArgumentsPack [StringTy] [StringV s]"
  shows "bindTokenURI (NewBoundContract addr (NFT_ABI K) client) tokenId w =
           (Ret (s, None),
            send (ReqCallContract addr (take 4 (K (bytesOf ''tokenURI(uint256)'')) @ U256Bytes tokenId)) w)"
proof -
  let ?c = "NewBoundContract addr (NFT_ABI K) client"
  let ?input = "take 4 (K (bytesOf ''tokenURI(uint256)'')) @ U256Bytes tokenId"
  let ?enc = "U256Bytes 32 @ U256Bytes (int (length s)) @ bytesOf s
                @ replicate ((length s + 31) div 32 * 32 - length s) 0"
  have ans: "CallContract (caller ?c) (address ?c) ?input = Inr ?enc"
    using assms(2) by (simp add: NewBoundContract_sel pack_string)
  have ne: "?enc \<noteq> []" using length_U256Bytes[of 32] by auto
  have "Call ?c ''tokenURI'' [BigIntV tokenId] w =
          (Unpack (abi ?c) ''tokenURI'' ?enc, send (ReqCallContract (address ?c) ?input) w)"
    by (rule Call_answer[OF _ ans ne]) (simp add: NewBoundContract_sel Pack_tokenURI)
  then show ?thesis
    using unpack_string[OF assms(1), of K] by (simp add: bindTokenURI_def NewBoundContract_sel)
qed

text \<open>
  Claim C6. For every token id, when the transport answers the packed \<^verbatim>\<open>ownerOf\<close> call
  with the encoding of an address, the accessor returns exactly that address, and when
  it answers the packed \<^verbatim>\<open>tokenURI\<close> call with the encoding of a string, the accessor
  returns exactly that string. The encodings are those of the codec's own
  \<^verbatim>\<open>Arguments.Pack\<close>; the length bound on the string holds for every Go byte slice.
\<close>

theorem nft_call_roundtrip:
  assumes "length a = AddressLength" and "64 + length s < 2 ^ 63"
  shows "(CallContract client addr (take 4 (K (bytesOf ''ownerOf(uint256)'')) @ U256Bytes tokenId)
            = ArgumentsPack [AddressTy] [AddressV a] \<longrightarrow>
          bindOwnerOf (NewBoundContract addr (NFT_ABI K) client) tokenId w =
            (Ret (a, None),
             send (ReqCallContract addr (take 4 (K (bytesOf ''ownerOf(uint256)'')) @ U256Bytes tokenId)) w)) \<and>
         (CallContract client addr (take 4 (K (bytesOf ''tokenURI(uint256)'')) @ U256Bytes tokenId)
            = ArgumentsPack [StringTy] [StringV s] \<longrightarrow>
          bindTokenURI (NewBoundContract addr (NFT_ABI K) client) tokenId w =
            (Ret (s, None),
             send (ReqCallContract addr (take 4 (K (bytesOf ''tokenURI(uint256)'')) @ U256Bytes tokenId)) w))"
  using bindOwnerOf_answer[OF assms(1)] bindTokenURI_answer[OF assms(2)] by blast

section \<open>Failures\<close>

lemma decimals_failure_is_fatal:
  assumes "dial ''https://eth.llamarpc.com'' = Inr client"
    and "CallContract client (HexToAddress USDC_CONTRACT_ADDRESS) (take 4 (K (bytesOf ''decimals()''))) = Inl err"
  shows "main_usdc K dial w0 =
           (Fatalf ''Failed to get USDC decimal places: '' err,
            w0\<lparr>requests := requests w0 @
                  [ReqDial ''https://eth.llamarpc.com'',
                   ReqCallContract (HexToAddress USDC_CONTRACT_ADDRESS) (take 4 (K (bytesOf ''decimals()'')))]\<rparr>)"
proof -
  let ?c = "NewBoundContract (HexToAddress USDC_CONTRACT_ADDRESS) (USDCABI K) client"
  let ?input = "take 4 (K (bytesOf ''decimals()''))"
  have "Call ?c ''decimals'' [] w = (Inl err, send (ReqCallContract (address ?c) ?input) w)" for w
    by (rule Call_transport_error) (simp_all add: NewBoundContract_sel Pack_decimals assms(2))
  then have "Decimals \<lparr>contract = ?c\<rparr> w = (Ret (0, Some err), send (ReqCallContract (address ?c) ?input) w)" for w
    by (simp add: Decimals_def)
  then show ?thesis
    using assms(1) by (simp add: main_usdc_def NewUSDC_def JSON_def Let_def NewBoundContract_sel send_def)
qed

lemma main_nft_parsed:
  assumes "Parse ParseInt (CommandLine\<lparr>args := osArgs\<rparr>) = Inr parsed"
    and "dial ''https://cloudflare-eth.com'' = Inr client"
  shows "main_nft K ParseInt dial osArgs w0 =
     (case getNFTInfo K
             \<lparr>OwnerOf = bindOwnerOf (NewBoundContract (HexToAddress NFT_CONTRACT_ADDRESS) (NFT_ABI K) client),
              TokenURI = bindTokenURI (NewBoundContract (HexToAddress NFT_CONTRACT_ADDRESS) (NFT_ABI K) client)\<rparr>
             (sint (deref parsed ''tokenId'')) (send (ReqDial ''https://cloudflare-eth.com'') w0) of
        (Panic p, w2) \<Rightarrow> (Crash p, w2)
      | (Ret (Some err), w2) \<Rightarrow> (Fatalf ''get NFT info failed: '' err, w2)
      | (Ret None, w2) \<Rightarrow> (Success, w2))"
  using assms by (simp add: main_nft_def JSON_def Let_def)

lemma ownerOf_failure_is_fatal:
  assumes "Parse ParseInt (CommandLine\<lparr>args := osArgs\<rparr>) = Inr parsed"
    and "dial ''https://cloudflare-eth.com'' = Inr client"
    and "CallContract client (HexToAddress NFT_CONTRACT_ADDRESS)
           (take 4 (K (bytesOf ''ownerOf(uint256)'')) @ U256Bytes (sint (deref parsed ''tokenId''))) = Inl err"
  shows "main_nft K ParseInt dial osArgs w0 =
           (Fatalf ''get NFT info failed: '' (Errorf ''get owner address failed: '' err),
            w0\<lparr>stdout := stdout w0 @
                  [''start getting NFT info...'' @ nl,
                   ''contract address: '' @ NFT_CONTRACT_ADDRESS @ nl,
                   ''Token ID: '' @ IntString (sint (deref parsed ''tokenId'')) @ nl],
                requests := requests w0 @
                  [ReqDial ''https://cloudflare-eth.com'',
                   ReqCallContract (HexToAddress NFT_CONTRACT_ADDRESS)
                     (take 4 (K (bytesOf ''ownerOf(uint256)'')) @ U256Bytes (sint (deref parsed ''tokenId'')))]\<rparr>)"
proof -
  let ?c = "NewBoundContract (HexToAddress NFT_CONTRACT_ADDRESS) (NFT_ABI K) client"
  let ?t = "sint (deref parsed ''tokenId'')"
  let ?input = "take 4 (K (bytesOf ''ownerOf(uint256)'')) @ U256Bytes ?t"
  have "Call ?c ''ownerOf'' [BigIntV ?t] w = (Inl err, send (ReqCallContract (address ?c) ?input) w)" for w
    by (rule Call_transport_error) (simp_all add: NewBoundContract_sel Pack_ownerOf assms(3))
  then have "bindOwnerOf ?c ?t w =
      (Ret (replicate AddressLength 0, Some err), send (ReqCallContract (address ?c) ?input) w)" for w
    by (simp add: bindOwnerOf_def)
  then show ?thesis
    unfolding main_nft_parsed[where dial=dial and K=K, OF assms(1,2)]
    by (simp add: getNFTInfo_def Let_def NewBoundContract_sel send_def Printf_def)
qed

lemma tokenURI_failure_is_fatal:
  assumes "Parse ParseInt (CommandLine\<lparr>args := osArgs\<rparr>) = Inr parsed"
    and "dial ''https://cloudflare-eth.com'' = Inr client"
    and "length a = AddressLength"
    and "CallContract client (HexToAddress NFT_CONTRACT_ADDRESS)
           (take 4 (K (bytesOf ''ownerOf(uint256)'')) @ U256Bytes (sint (deref parsed ''tokenId'')))
           = ArgumentsPack [AddressTy] [AddressV a]"
    and "CallContract client (HexToAddress NFT_CONTRACT_ADDRESS)
           (take 4 (K (bytesOf ''tokenURI(uint256)'')) @ U256Bytes (sint (deref parsed ''tokenId''))) = Inl err"
  shows "main_nft K ParseInt dial osArgs w0 =
           (Fatalf ''get NFT info failed: '' (Errorf ''get metadata URI failed: '' err),
            w0\<lparr>stdout := stdout w0 @
                  [''start getting NFT info...'' @ nl,
                   ''contract address: '' @ NFT_CONTRACT_ADDRESS @ nl,
                   ''Token ID: '' @ IntString (sint (deref parsed ''tokenId'')) @ nl,
                   ''Token ID '' @ IntString (sint (deref parsed ''tokenId'')) @ '' owner address: ''
                     @ AddressHex K a @ nl],
                requests := requests w0 @
                  [ReqDial ''https://cloudflare-eth.com'',
                   ReqCallContract (HexToAddress NFT_CONTRACT_ADDRESS)
                     (take 4 (K (bytesOf ''ownerOf(uint256)'')) @ U256Bytes (sint (deref parsed ''tokenId''))),
                   ReqCallContract (HexToAddress NFT_CONTRACT_ADDRESS)
                     (take 4 (K (bytesOf ''tokenURI(uint256)'')) @ U256Bytes (sint (deref parsed ''tokenId'')))]\<rparr>)"
proof -
  let ?c = "NewBoundContract (HexToAddress NFT_CONTRACT_ADDRESS) (NFT_ABI K) client"
  let ?t = "sint (deref parsed ''tokenId'')"
  let ?input = "take 4 (K (bytesOf ''tokenURI(uint256)'')) @ U256Bytes ?t"
  note own = bindOwnerOf_answer[where K=K, OF assms(3,4)]
  have "Call ?c ''tokenURI'' [BigIntV ?t] w = (Inl err, send (ReqCallContract (address ?c) ?input) w)" for w
    by (rule Call_transport_error) (simp_all add: NewBoundContract_sel Pack_tokenURI assms(5))
  then have "bindTokenURI ?c ?t w =
      (Ret ([], Some err), send (ReqCallContract (address ?c) ?input) w)" for w
    by (simp add: bindTokenURI_def)
  then show ?thesis
    unfolding main_nft_parsed[where dial=dial and K=K, OF assms(1,2)]
    by (simp add: getNFTInfo_def Let_def own NewBoundContract_sel send_def Printf_def)
qed

text \<open>
  Claim C3. When the transport returns an error for a contract call, the command ends by
  \<^verbatim>\<open>log.Fatalf\<close> with a message that names the failed operation, nothing is printed
  after the call and no further request is sent: a failed \<^verbatim>\<open>decimals\<close> call leaves the
  output empty and sends neither the header request nor the log query; a failed
  \<^verbatim>\<open>ownerOf\<close> call leaves the three heading lines and sends no \<^verbatim>\<open>tokenURI\<close> call; a
  failed \<^verbatim>\<open>tokenURI\<close> call leaves the heading lines and the owner line.
\<close>

theorem failure_propagation:
  "(dial ''https://eth.llamarpc.com'' = Inr client \<and>
    CallContract client (HexToAddress USDC_CONTRACT_ADDRESS) (take 4 (K (bytesOf ''decimals()''))) = Inl err
    \<longrightarrow>
    main_usdc K dial w =
      (Fatalf ''Failed to get USDC decimal places: '' err,
       w\<lparr>requests := requests w @
             [ReqDial ''https://eth.llamarpc.com'',
              ReqCallContract (HexToAddress USDC_CONTRACT_ADDRESS) (take 4 (K (bytesOf ''decimals()'')))]\<rparr>))
   \<and>
   (Parse ParseInt (CommandLine\<lparr>args := osArgs\<rparr>) = Inr parsed \<and>
    dial ''https://cloudflare-eth.com'' = Inr client \<and>
    CallContract client (HexToAddress NFT_CONTRACT_ADDRESS)
      (take 4 (K (bytesOf ''ownerOf(uint256)'')) @ U256Bytes (sint (deref parsed ''tokenId''))) = Inl err
    \<longrightarrow>
    main_nft K ParseInt dial osArgs w =
      (Fatalf ''get NFT info failed: '' (Errorf ''get owner address failed: '' err),
       w\<lparr>stdout := stdout w @
             [''start getting NFT info...'' @ nl,
              ''contract address: '' @ NFT_CONTRACT_ADDRESS @ nl,
              ''Token ID: '' @ IntString (sint (deref parsed ''tokenId'')) @ nl],
           requests := requests w @
             [ReqDial ''https://cloudflare-eth.com'',
              ReqCallContract (HexToAddress NFT_CONTRACT_ADDRESS)
                (take 4 (K (bytesOf ''ownerOf(uint256)'')) @ U256Bytes (sint (deref parsed ''tokenId'')))]\<rparr>))
   \<and>
   (Parse ParseInt (CommandLine\<lparr>args := osArgs\<rparr>) = Inr parsed \<and>
    dial ''https://cloudflare-eth.com'' = Inr client \<and>
    length a = AddressLength \<and>
    CallContract client (HexToAddress NFT_CONTRACT_ADDRESS)
      (take 4 (K (bytesOf ''ownerOf(uint256)'')) @ U256Bytes (sint (deref parsed ''tokenId'')))
      = ArgumentsPack [AddressTy] [AddressV a] \<and>
    CallContract client (HexToAddress NFT_CONTRACT_ADDRESS)
      (take 4 (K (bytesOf ''tokenURI(uint256)'')) @ U256Bytes (sint (deref parsed ''tokenId''))) = Inl err
    \<longrightarrow>
    main_nft K ParseInt dial osArgs w =
      (Fatalf ''get NFT info failed: '' (Errorf ''get metadata URI failed: '' err),
       w\<lparr>stdout := stdout w @
             [''start getting NFT info...'' @ nl,
              ''contract address: '' @ NFT_CONTRACT_ADDRESS @ nl,
              ''Token ID: '' @ IntString (sint (deref parsed ''tokenId'')) @ nl,
              ''Token ID '' @ IntString (sint (deref parsed ''tokenId'')) @ '' owner address: ''
                @ AddressHex K a @ nl],
           requests := requests w @
             [ReqDial ''https://cloudflare-eth.com'',
              ReqCallContract (HexToAddress NFT_CONTRACT_ADDRESS)
                (take 4 (K (bytesOf ''ownerOf(uint256)'')) @ U256Bytes (sint (deref parsed ''tokenId''))),
              ReqCallContract (HexToAddress NFT_CONTRACT_ADDRESS)
                (take 4 (K (bytesOf ''tokenURI(uint256)'')) @ U256Bytes (sint (deref parsed ''tokenId'')))]\<rparr>))"
proof (intro conjI impI; elim conjE)
  show "main_usdc K dial w =
      (Fatalf ''Failed to get USDC decimal places: '' err,
       w\<lparr>requests := requests w @
             [ReqDial ''https://eth.llamarpc.com'',
              ReqCallContract (HexToAddress USDC_CONTRACT_ADDRESS) (take 4 (K (bytesOf ''decimals()'')))]\<rparr>)"
    if "dial ''https://eth.llamarpc.com'' = Inr client"
      and "CallContract client (HexToAddress USDC_CONTRACT_ADDRESS) (take 4 (K (bytesOf ''decimals()''))) = Inl err"
    using that by (rule decimals_failure_is_fatal)
qed (rule ownerOf_failure_is_fatal tokenURI_failure_is_fatal; assumption)+

section \<open>The command line of the NFT command\<close>

lemma Parse_Seen: "parseOne P f = Seen f' \<Longrightarrow> Parse P f = Parse P f'"
  by (subst Parse.simps) simp

lemma Parse_Stop: "parseOne P f = Stop f' \<Longrightarrow> Parse P f = Inr f'"
  by (subst Parse.simps) simp

lemma Parse_Failed: "parseOne P f = Failed e \<Longrightarrow> Parse P f = Inl (FlagExit e)"
  by (subst Parse.simps) simp

lemma Parse_Help: "parseOne P f = Help \<Longrightarrow> Parse P f = Inl HelpExit"
  by (subst Parse.simps) simp

lemma setFlag_keeps:
  assumes "map fst (formal f) = [''tokenId'']" and "set (actual f) \<subseteq> {''tokenId''}"
    and "map_of (formal f) name = Some old" and "setFlag P f name v rest = Seen f'"
  shows "map fst (formal f') = [''tokenId''] \<and> set (actual f') \<subseteq> {''tokenId''}
           \<and> ''tokenId'' \<in> set (actual f')"
proof -
  from assms(3) have "name \<in> set (map fst (formal f))"
    by (auto dest!: map_of_SomeD intro: rev_image_eqI)
  with assms(1) have n: "name = ''tokenId''" by simp
  from assms(4) obtain x where f': "f' = f\<lparr>formal := map (\<lambda>(n, old). if n = name then (n, x) else (n, old)) (formal f),
                   actual := actual f @ [name], args := rest\<rparr>"
    by (auto simp: setFlag_def split: option.splits)
  have "map fst (map (\<lambda>(n, old). if n = name then (n, x) else (n, old)) (formal f)) = map fst (formal f)"
    by (induction "formal f") (auto split: prod.splits)
  then show ?thesis using assms(1,2) n f' by simp
qed

lemma parseOne_keeps:
  assumes "map fst (formal f) = [''tokenId'']" and "set (actual f) \<subseteq> {''tokenId''}"
    and "''tokenId'' \<notin> set (actual f) \<longrightarrow> deref f ''tokenId'' = 1"
    and "parseOne P f = Seen f' \<or> parseOne P f = Stop f'"
  shows "map fst (formal f') = [''tokenId''] \<and> set (actual f') \<subseteq> {''tokenId''}
           \<and> (''tokenId'' \<notin> set (actual f') \<longrightarrow> deref f' ''tokenId'' = 1)"
  using assms(4)
proof
  assume "parseOne P f = Stop f'"
  then have "formal f' = formal f \<and> actual f' = actual f"
    by (auto simp: parseOne_def setFlag_def Let_def
          split: list.splits if_splits prod.splits option.splits)
  with assms(1-3) show ?thesis by (simp add: deref_def)
next
  assume "parseOne P f = Seen f'"
  then obtain name old v rest where "map_of (formal f) name = Some old" "setFlag P f name v rest = Seen f'"
    by (auto simp: parseOne_def Let_def split: list.splits if_splits prod.splits option.splits)
  from setFlag_keeps[OF assms(1,2) this] show ?thesis by simp
qed

lemma Parse_keeps:
  assumes "Parse P f = Inr parsed"
    and "map fst (formal f) = [''tokenId'']" and "set (actual f) \<subseteq> {''tokenId''}"
    and "''tokenId'' \<notin> set (actual f) \<longrightarrow> deref f ''tokenId'' = 1"
  shows "map fst (formal parsed) = [''tokenId''] \<and> set (actual parsed) \<subseteq> {''tokenId''}
           \<and> (''tokenId'' \<notin> set (actual parsed) \<longrightarrow> deref parsed ''tokenId'' = 1)"
  using assms
proof (induction P f rule: Parse.induct)
  case (1 P f)
  show ?case
  proof (cases "parseOne P f")
    case (Seen f')
    from parseOne_keeps[OF "1.prems"(2-4), of P f'] Seen
    have k: "map fst (formal f') = [''tokenId'']" "set (actual f') \<subseteq> {''tokenId''}"
      "''tokenId'' \<notin> set (actual f') \<longrightarrow> deref f' ''tokenId'' = 1" by simp_all
    from "1.prems"(1) Seen have "Parse P f' = Inr parsed" by (simp add: Parse_Seen)
    from "1.IH"[OF Seen this k] show ?thesis .
  next
    case (Stop f')
    with "1.prems"(1) have "f' = parsed" by (simp add: Parse_Stop)
    with parseOne_keeps[OF "1.prems"(2-4), of P f'] Stop show ?thesis by simp
  next
    case (Failed e)
    with "1.prems"(1) show ?thesis by (simp add: Parse_Failed)
  next
    case Help
    with "1.prems"(1) show ?thesis by (simp add: Parse_Help)
  qed
qed

lemma parseOne_empty: "args f = [] \<Longrightarrow> parseOne P f = Stop f"
  by (simp add: parseOne_def)

lemma Parse_empty: "args f = [] \<Longrightarrow> Parse P f = Inr f"
  by (simp add: Parse_Stop parseOne_empty)

lemma Parse_tokenId_value:
  "Parse P (CommandLine\<lparr>args := [''-tokenId'', v]\<rparr>) =
     (case P v of
        None \<Rightarrow> Inl (FlagExit (InvalidValue v ''tokenId''))
      | Some x \<Rightarrow> Inr \<lparr>formal = [(''tokenId'', x)], actual = [''tokenId''], args = []\<rparr>)"
proof (cases "P v")
  case None
  then have "parseOne P (CommandLine\<lparr>args := [''-tokenId'', v]\<rparr>)
               = Failed (InvalidValue v ''tokenId'')"
    by (simp add: parseOne_def CommandLine_def Int64_def splitName_def setFlag_def Let_def)
  then show ?thesis using None by (simp add: Parse_Failed)
next
  case (Some x)
  then have "parseOne P (CommandLine\<lparr>args := [''-tokenId'', v]\<rparr>)
               = Seen \<lparr>formal = [(''tokenId'', x)], actual = [''tokenId''], args = []\<rparr>"
    by (simp add: parseOne_def CommandLine_def Int64_def splitName_def setFlag_def Let_def)
  then show ?thesis using Some by (simp add: Parse_Seen Parse_empty)
qed

lemma Parse_undefined_flag:
  assumes "name \<noteq> []" and "hd name \<noteq> CHR ''-''" and "hd name \<noteq> CHR ''=''"
    and "CHR ''='' \<notin> set (tl name)" and "name \<notin> {''tokenId'', ''help'', ''h''}"
  shows "Parse P (CommandLine\<lparr>args := (CHR ''-'' # name) # rest\<rparr>)
           = Inl (FlagExit (NotDefined name))"
proof -
  from assms(1) obtain c cs where n: "name = c # cs" by (cases name) auto
  with assms have sp: "splitName name = (name, None)" by (simp add: splitName_def)
  have "parseOne P (CommandLine\<lparr>args := (CHR ''-'' # name) # rest\<rparr>)
          = Failed (NotDefined name)"
    using assms n sp by (auto simp: parseOne_def CommandLine_def Int64_def Let_def)
  then show ?thesis by (simp add: Parse_Failed)
qed

text \<open>
  Claim C7. The command line of the NFT command has the one flag \<^verbatim>\<open>tokenId\<close>: after
  every successful parse it is the only defined name and the only name that can have
  been set, and any other plain flag name ends the process as not defined. The flag takes
  an integer value: \<^verbatim>\<open>-tokenId v\<close> stores the integer that \<open>ParseInt\<close> reads from \<open>v\<close>,
  and ends the process when \<open>v\<close> is not an integer. When the flag is not set its value is
  1, and \<^verbatim>\<open>getNFTInfo\<close> is run with the token id 1.
\<close>

theorem tokenId_flag:
  "(Parse ParseInt (CommandLine\<lparr>args := osArgs\<rparr>) = Inr parsed
      \<longrightarrow> map fst (formal parsed) = [''tokenId''] \<and> set (actual parsed) \<subseteq> {''tokenId''} \<and>
          (''tokenId'' \<notin> set (actual parsed) \<longrightarrow> deref parsed ''tokenId'' = 1))
   \<and>
   (Parse ParseInt (CommandLine\<lparr>args := osArgs\<rparr>) = Inr parsed \<and>
    ''tokenId'' \<notin> set (actual parsed) \<and> dial ''https://cloudflare-eth.com'' = Inr client
      \<longrightarrow> main_nft K ParseInt dial osArgs w =
           (case getNFTInfo K
                   \<lparr>OwnerOf = bindOwnerOf (NewBoundContract (HexToAddress NFT_CONTRACT_ADDRESS) (NFT_ABI K) client),
                    TokenURI = bindTokenURI (NewBoundContract (HexToAddress NFT_CONTRACT_ADDRESS) (NFT_ABI K) client)\<rparr>
                   1 (send (ReqDial ''https://cloudflare-eth.com'') w) of
              (Panic p, w2) \<Rightarrow> (Crash p, w2)
            | (Ret (Some err), w2) \<Rightarrow> (Fatalf ''get NFT info failed: '' err, w2)
            | (Ret None, w2) \<Rightarrow> (Success, w2)))
   \<and>
   (ParseInt v = Some x
      \<longrightarrow> Parse ParseInt (CommandLine\<lparr>args := [''-tokenId'', v]\<rparr>)
            = Inr \<lparr>formal = [(''tokenId'', x)], actual = [''tokenId''], args = []\<rparr>)
   \<and>
   (ParseInt v = None
      \<longrightarrow> main_nft K ParseInt dial [''-tokenId'', v] w = (FlagExit (InvalidValue v ''tokenId''), w))
   \<and>
   (name \<noteq> [] \<and> hd name \<noteq> CHR ''-'' \<and> hd name \<noteq> CHR ''='' \<and> CHR ''='' \<notin> set (tl name) \<and>
    name \<notin> {''tokenId'', ''help'', ''h''}
      \<longrightarrow> main_nft K ParseInt dial ((CHR ''-'' # name) # rest) w = (FlagExit (NotDefined name), w))"
proof (intro conjI impI)
  assume p: "Parse ParseInt (CommandLine\<lparr>args := osArgs\<rparr>) = Inr parsed"
  from Parse_keeps[OF p]
  have k: "map fst (formal parsed) = [''tokenId''] \<and> set (actual parsed) \<subseteq> {''tokenId''} \<and>
          (''tokenId'' \<notin> set (actual parsed) \<longrightarrow> deref parsed ''tokenId'' = 1)"
    by (simp add: CommandLine_def Int64_def deref_def)
  from k show "map fst (formal parsed) = [''tokenId'']" by simp
  from k show "set (actual parsed) \<subseteq> {''tokenId''}" by simp
  assume "''tokenId'' \<notin> set (actual parsed)"
  with k show "deref parsed ''tokenId'' = 1" by simp
next
  assume a: "Parse ParseInt (CommandLine\<lparr>args := osArgs\<rparr>) = Inr parsed \<and>
    ''tokenId'' \<notin> set (actual parsed) \<and> dial ''https://cloudflare-eth.com'' = Inr client"
  then have p: "Parse ParseInt (CommandLine\<lparr>args := osArgs\<rparr>) = Inr parsed"
    and d: "dial ''https://cloudflare-eth.com'' = Inr client" by simp_all
  from Parse_keeps[OF p] a have "deref parsed ''tokenId'' = 1"
    by (simp add: CommandLine_def Int64_def deref_def)
  then show "main_nft K ParseInt dial osArgs w =
           (case getNFTInfo K
                   \<lparr>OwnerOf = bindOwnerOf (NewBoundContract (HexToAddress NFT_CONTRACT_ADDRESS) (NFT_ABI K) client),
                    TokenURI = bindTokenURI (NewBoundContract (HexToAddress NFT_CONTRACT_ADDRESS) (NFT_ABI K) client)\<rparr>
                   1 (send (ReqDial ''https://cloudflare-eth.com'') w) of
              (Panic p, w2) \<Rightarrow> (Crash p, w2)
            | (Ret (Some err), w2) \<Rightarrow> (Fatalf ''get NFT info failed: '' err, w2)
            | (Ret None, w2) \<Rightarrow> (Success, w2))"
    using main_nft_parsed[where dial=dial and K=K, OF p d, of w] by simp
next
  assume "ParseInt v = Some x"
  then show "Parse ParseInt (CommandLine\<lparr>args := [''-tokenId'', v]\<rparr>)
            = Inr \<lparr>formal = [(''tokenId'', x)], actual = [''tokenId''], args = []\<rparr>"
    by (simp add: Parse_tokenId_value)
next
  assume "ParseInt v = None"
  then show "main_nft K ParseInt dial [''-tokenId'', v] w = (FlagExit (InvalidValue v ''tokenId''), w)"
    by (simp add: main_nft_def Parse_tokenId_value)
next
  assume "name \<noteq> [] \<and> hd name \<noteq> CHR ''-'' \<and> hd name \<noteq> CHR ''='' \<and> CHR ''='' \<notin> set (tl name) \<and>
    name \<notin> {''tokenId'', ''help'', ''h''}"
  then show "main_nft K ParseInt dial ((CHR ''-'' # name) # rest) w = (FlagExit (NotDefined name), w)"
    using Parse_undefined_flag[of name ParseInt rest] by (simp add: main_nft_def)
qed

section \<open>Examples\<close>

text \<open>The query built for the blocks 100 to 199.\<close>

theorem filter_query_example:
  "requests (snd (getUSDCTransfers exampleHash (exampleClient (\<lambda>i. Inr []) 199 []) 100 199 6 emptyWorld)) =
     [ReqFilterLogs \<lparr>FromBlock = 100, ToBlock = 199,
        Addresses = [[0xA0, 0xb8, 0x69, 0x91, 0xc6, 0x21, 0x8b, 0x36, 0xc1, 0xd1,
                      0x9D, 0x4a, 0x2e, 0x9E, 0xb0, 0xcE, 0x36, 0x06, 0xeB, 0x48]],
        QueryTopics = [[exampleHash (bytesOf ''Transfer(address,address,uint256)'')]]\<rparr>]"
  using filter_query_topics_and_address[of exampleHash "exampleClient (\<lambda>i. Inr []) 199 []" 100 199 6 emptyWorld]
  by (simp add: emptyWorld_def)

text \<open>
  Claim C2 as stated, for every list of logs, fails: for a returned log that carries the
  event topic only, the run panics on \<^verbatim>\<open>vLog.Topics[1]\<close> after the summary line, and no
  record is printed for the log.
\<close>

theorem unindexed_log_counterexample:
  "fst (getUSDCTransfers exampleHash
          (exampleClient (\<lambda>i. Inr []) 7
             [\<lparr>Topics = [exampleHash (bytesOf TRANSFER_EVENT_SIGNATURE)],
               Data = U256Bytes 1000000, BlockNumber = 7\<rparr>])
          0 7 6 emptyWorld) = Panic (IndexOutOfRange 1 1) \<and>
   stdout (snd (getUSDCTransfers exampleHash
          (exampleClient (\<lambda>i. Inr []) 7
             [\<lparr>Topics = [exampleHash (bytesOf TRANSFER_EVENT_SIGNATURE)],
               Data = U256Bytes 1000000, BlockNumber = 7\<rparr>])
          0 7 6 emptyWorld)) = [''Found 1 USDC transfer records between blocks 0 and 7'' @ nl]"
proof -
  have "foundLine 1 0 7 = ''Found 1 USDC transfer records between blocks 0 and 7'' @ nl"
    by (simp add: foundLine_def decimal.simps)
  then show ?thesis
    by (simp add: getUSDCTransfers_def exampleClient_def emptyWorld_def send_def Printf_def
        decodeTransfer_def Let_def)
qed

lemma decode_mint_example:
  "decodeTransfer 1000000
     \<lparr>Topics = [t0, replicate 32 0, replicate 12 0 @ replicate 20 0x22],
      Data = U256Bytes 1000000, BlockNumber = 7\<rparr>
   = Ret \<lparr>blockNumber = 7, transferType = ''Mint'', fromAddress = replicate 20 0,
          toAddress = replicate 20 0x22, amount = 1\<rparr>"
proof -
  have z: "HexToAddress ''0x0000000000000000000000000000000000000000'' = replicate 20 0"
    by (simp add: zero_addr numeral_eq_Suc)
  have s: "SetBytes (U256Bytes 1000000) = 1000000"
    by (rule SetBytes_U256Bytes) simp_all
  show ?thesis
    by (simp add: decodeTransfer_ok HexToAddress_HashHex z s)
qed

lemma decode_transfer_example:
  "decodeTransfer 1000000
     \<lparr>Topics = [t0, replicate 12 0xff @ replicate 20 0x11, replicate 12 0 @ replicate 20 0x22],
      Data = U256Bytes 2500000, BlockNumber = 8\<rparr>
   = Ret \<lparr>blockNumber = 8, transferType = ''Transfer'', fromAddress = replicate 20 0x11,
          toAddress = replicate 20 0x22, amount = 2\<rparr>"
proof -
  have z: "HexToAddress ''0x0000000000000000000000000000000000000000'' = replicate 20 0"
    by (simp add: zero_addr numeral_eq_Suc)
  have s: "SetBytes (U256Bytes 2500000) = 2500000"
    by (rule SetBytes_U256Bytes) simp_all
  have n: "replicate 20 (0x11 :: byte) \<noteq> replicate 20 0"
    by simp
  show ?thesis
    by (simp add: decodeTransfer_ok HexToAddress_HashHex z s n)
qed

text \<open>
  With 6 decimals and a log whose data is the 32-byte encoding of 1,000,000, the printed
  amount is 1.
\<close>

theorem transfers_example:
  "getUSDCTransfers exampleHash
      (exampleClient (\<lambda>i. Inr []) 7
         [\<lparr>Topics = [exampleHash (bytesOf TRANSFER_EVENT_SIGNATURE), replicate 32 0,
                      replicate 12 0 @ replicate 20 0x22],
           Data = U256Bytes 1000000, BlockNumber = 7\<rparr>])
      0 7 6 emptyWorld =
     (Ret None,
      \<lparr>stdout =
         [''Found 1 USDC transfer records between blocks 0 and 7'' @ nl,
          ''Block #7: Mint from 0x0000000000000000000000000000000000000000 to 0x2222222222222222222222222222222222222222, amount: 1 USDC'' @ nl],
       requests =
         [ReqFilterLogs \<lparr>FromBlock = 0, ToBlock = 7,
            Addresses = [HexToAddress USDC_CONTRACT_ADDRESS],
            QueryTopics = [[exampleHash (bytesOf TRANSFER_EVENT_SIGNATURE)]]\<rparr>]\<rparr>)"
proof -
  let ?L = "\<lparr>Topics = [exampleHash (bytesOf TRANSFER_EVENT_SIGNATURE), replicate 32 0,
                      replicate 12 0 @ replicate 20 0x22],
           Data = U256Bytes 1000000, BlockNumber = 7\<rparr>"
  let ?R = "\<lparr>blockNumber = 7, transferType = ''Mint'', fromAddress = replicate 20 0,
          toAddress = replicate 20 0x22, amount = 1\<rparr>"
  let ?c = "exampleClient (\<lambda>i. Inr []) 7 [?L]"
  let ?q = "\<lparr>FromBlock = sint (0 :: 64 word), ToBlock = sint (7 :: 64 word),
        Addresses = [HexToAddress USDC_CONTRACT_ADDRESS],
        QueryTopics = [[exampleHash (bytesOf TRANSFER_EVENT_SIGNATURE)]]\<rparr>"
  have f: "FilterLogs ?c ?q = Inr [?L]"
    by (simp add: exampleClient_def)
  have t: "\<forall>l \<in> set [?L]. 3 \<le> length (Topics l)"
    by simp
  from transfers_one_record_per_log[where K=exampleHash and decimals=6 and w=emptyWorld, OF f t]
  obtain rs where len: "length rs = length [?L]"
    and each: "\<forall>i < length [?L]. decodeTransfer (10 ^ unat (6 :: byte)) ([?L] ! i) = Ret (rs ! i)
                 \<and> blockNumber (rs ! i) = BlockNumber ([?L] ! i)
                 \<and> amount (rs ! i) = SetBytes (Data ([?L] ! i)) div 10 ^ unat (6 :: byte)
                 \<and> (\<exists>pre. transferLine exampleHash (rs ! i) =
                        pre @ '', amount: ''
                          @ IntString (SetBytes (Data ([?L] ! i)) div 10 ^ unat (6 :: byte))
                          @ '' USDC'' @ nl)"
    and run: "getUSDCTransfers exampleHash ?c 0 7 6 emptyWorld =
             (Ret None,
              emptyWorld\<lparr>stdout := stdout emptyWorld @ foundLine (length [?L]) 0 7
                               # map (transferLine exampleHash) rs,
                requests := requests emptyWorld @ [ReqFilterLogs ?q]\<rparr>)"
    by blast
  from each have "decodeTransfer 1000000 ?L = Ret (rs ! 0)" by simp
  then have "rs ! 0 = ?R" by (simp add: decode_mint_example)
  with len have rs: "rs = [?R]" by (cases rs) auto
  have l1: "foundLine (Suc 0) 0 7 = ''Found 1 USDC transfer records between blocks 0 and 7'' @ nl"
    by (simp add: foundLine_def decimal.simps)
  have l2: "transferLine exampleHash ?R =
      ''Block #7: Mint from 0x0000000000000000000000000000000000000000 to 0x2222222222222222222222222222222222222222, amount: 1 USDC'' @ nl"
    by code_simp
  from run show ?thesis
    unfolding rs by (simp add: emptyWorld_def l1 l2)
qed

text \<open>
  A log whose sender topic is zero gives a \<^verbatim>\<open>Mint\<close> record, and one whose sender is the
  address 1111...11 gives a \<^verbatim>\<open>Transfer\<close> record.
\<close>

theorem classification_example:
  "decodeTransfer 1000000
     \<lparr>Topics = [exampleHash (bytesOf TRANSFER_EVENT_SIGNATURE), replicate 32 0, replicate 12 0 @ replicate 20 0x22],
      Data = U256Bytes 1000000, BlockNumber = 7\<rparr>
     = Ret \<lparr>blockNumber = 7, transferType = ''Mint'', fromAddress = replicate 20 0,
            toAddress = replicate 20 0x22, amount = 1\<rparr> \<and>
   decodeTransfer 1000000
     \<lparr>Topics = [exampleHash (bytesOf TRANSFER_EVENT_SIGNATURE), replicate 12 0xff @ replicate 20 0x11, replicate 12 0 @ replicate 20 0x22],
      Data = U256Bytes 2500000, BlockNumber = 8\<rparr>
     = Ret \<lparr>blockNumber = 8, transferType = ''Transfer'', fromAddress = replicate 20 0x11,
            toAddress = replicate 20 0x22, amount = 2\<rparr> \<and>
   replicate 20 (0x11 :: byte) \<noteq> replicate 20 0"
  using transfer_classification[OF decode_mint_example[of "exampleHash (bytesOf TRANSFER_EVENT_SIGNATURE)"]]
    transfer_classification[OF decode_transfer_example[of "exampleHash (bytesOf TRANSFER_EVENT_SIGNATURE)"]]
    decode_mint_example[of "exampleHash (bytesOf TRANSFER_EVENT_SIGNATURE)"] decode_transfer_example[of "exampleHash (bytesOf TRANSFER_EVENT_SIGNATURE)"]
  by simp

text \<open>
  Two logs whose sender topics differ only in the high-order 12 bytes (all ones against
  all zeros) give the same record.
\<close>

theorem topic_high_bytes_example:
  "decodeTransfer 1000000
     \<lparr>Topics = [exampleHash (bytesOf TRANSFER_EVENT_SIGNATURE), replicate 12 0xff @ replicate 20 0x11, replicate 12 0 @ replicate 20 0x22],
      Data = U256Bytes 2500000, BlockNumber = 8\<rparr>
     = Ret \<lparr>blockNumber = 8, transferType = ''Transfer'', fromAddress = replicate 20 0x11,
            toAddress = replicate 20 0x22, amount = 2\<rparr> \<and>
   decodeTransfer 1000000
     \<lparr>Topics = [exampleHash (bytesOf TRANSFER_EVENT_SIGNATURE), replicate 12 0 @ replicate 20 0x11, replicate 12 0xff @ replicate 20 0x22],
      Data = U256Bytes 2500000, BlockNumber = 8\<rparr>
     = Ret \<lparr>blockNumber = 8, transferType = ''Transfer'', fromAddress = replicate 20 0x11,
            toAddress = replicate 20 0x22, amount = 2\<rparr> \<and>
   replicate 12 (0xff :: byte) @ replicate 20 0x11 \<noteq> replicate 12 0 @ replicate 20 0x11"
proof -
  let ?l1 = "\<lparr>Topics = [exampleHash (bytesOf TRANSFER_EVENT_SIGNATURE), replicate 12 0xff @ replicate 20 0x11, replicate 12 0 @ replicate 20 0x22],
      Data = U256Bytes 2500000, BlockNumber = 8\<rparr>"
  let ?l2 = "\<lparr>Topics = [exampleHash (bytesOf TRANSFER_EVENT_SIGNATURE), replicate 12 0 @ replicate 20 0x11, replicate 12 0xff @ replicate 20 0x22],
      Data = U256Bytes 2500000, BlockNumber = 8\<rparr>"
  let ?R = "\<lparr>blockNumber = 8, transferType = ''Transfer'', fromAddress = replicate 20 0x11,
            toAddress = replicate 20 0x22, amount = 2\<rparr>"
  note d1 = decode_transfer_example[of "exampleHash (bytesOf TRANSFER_EVENT_SIGNATURE)"]
  have d2: "decodeTransfer 1000000 ?l2 = Ret ?R"
  proof -
    have z: "HexToAddress ''0x0000000000000000000000000000000000000000'' = replicate 20 0"
      by (simp add: zero_addr numeral_eq_Suc)
    have s: "SetBytes (U256Bytes 2500000) = 2500000"
      by (rule SetBytes_U256Bytes) simp_all
    show ?thesis
      by (simp add: decodeTransfer_ok HexToAddress_HashHex z s)
  qed
  have "fromAddress ?R = drop 12 (Topics ?l1 ! 1) \<and> toAddress ?R = drop 12 (Topics ?l1 ! 2) \<and>
         (drop 12 (Topics ?l1 ! 1) = drop 12 (Topics ?l2 ! 1) \<longrightarrow> fromAddress ?R = fromAddress ?R) \<and>
         (drop 12 (Topics ?l1 ! 2) = drop 12 (Topics ?l2 ! 2) \<longrightarrow> toAddress ?R = toAddress ?R)"
    by (rule topic_address_low_bytes[OF d1 d2]) simp_all
  with d1 d2 show ?thesis by simp
qed

text \<open>
  A list of one log with three topics is processed; adding a log with two topics makes
  the run panic.
\<close>

theorem topics_bounds_example:
  "fst (getUSDCTransfers exampleHash
          (exampleClient (\<lambda>i. Inr []) 7
             [\<lparr>Topics = [exampleHash (bytesOf TRANSFER_EVENT_SIGNATURE), replicate 32 0, replicate 32 1], Data = U256Bytes 1000000, BlockNumber = 7\<rparr>])
          0 7 6 emptyWorld) = Ret None \<and>
   (\<exists>i n. fst (getUSDCTransfers exampleHash
          (exampleClient (\<lambda>i. Inr []) 7
             [\<lparr>Topics = [exampleHash (bytesOf TRANSFER_EVENT_SIGNATURE), replicate 32 0, replicate 32 1], Data = U256Bytes 1000000, BlockNumber = 7\<rparr>,
              \<lparr>Topics = [exampleHash (bytesOf TRANSFER_EVENT_SIGNATURE), replicate 32 0], Data = U256Bytes 1000000, BlockNumber = 7\<rparr>])
          0 7 6 emptyWorld) = Panic (IndexOutOfRange i n) \<and> n \<le> i \<and> i < 3)"
proof -
  let ?good = "\<lparr>Topics = [exampleHash (bytesOf TRANSFER_EVENT_SIGNATURE), replicate 32 0, replicate 32 (1 :: byte)], Data = U256Bytes 1000000, BlockNumber = 7\<rparr>"
  let ?short = "\<lparr>Topics = [exampleHash (bytesOf TRANSFER_EVENT_SIGNATURE), replicate 32 (0 :: byte)], Data = U256Bytes 1000000, BlockNumber = 7\<rparr>"
  let ?q = "\<lparr>FromBlock = sint (0 :: 64 word), ToBlock = sint (7 :: 64 word),
        Addresses = [HexToAddress USDC_CONTRACT_ADDRESS],
        QueryTopics = [[exampleHash (bytesOf TRANSFER_EVENT_SIGNATURE)]]\<rparr>"
  have f1: "FilterLogs (exampleClient (\<lambda>i. Inr []) 7 [?good]) ?q = Inr [?good]"
    by (simp add: exampleClient_def)
  have f2: "FilterLogs (exampleClient (\<lambda>i. Inr []) 7 [?good, ?short]) ?q = Inr [?good, ?short]"
    by (simp add: exampleClient_def)
  from topics_index_bounds[where K=exampleHash and decimals=6 and w=emptyWorld, OF f1]
  have a: "fst (getUSDCTransfers exampleHash (exampleClient (\<lambda>i. Inr []) 7 [?good]) 0 7 6 emptyWorld) = Ret None"
    by simp
  from topics_index_bounds[where K=exampleHash and decimals=6 and w=emptyWorld, OF f2]
  have b: "\<exists>i n. fst (getUSDCTransfers exampleHash (exampleClient (\<lambda>i. Inr []) 7 [?good, ?short]) 0 7 6 emptyWorld)
              = Panic (IndexOutOfRange i n) \<and> n \<le> i \<and> i < 3"
    by simp
  from a b show ?thesis by blast
qed

text \<open>At the chain head 50 the command queries the blocks from -49 to 50.\<close>

theorem start_block_example:
  "requests (snd (main_usdc exampleHash (\<lambda>url. Inr (exampleClient (\<lambda>i. Inr (U256Bytes 6)) 50 [])) emptyWorld)) =
     [ReqDial ''https://eth.llamarpc.com'',
      ReqCallContract (HexToAddress USDC_CONTRACT_ADDRESS) (take 4 (exampleHash (bytesOf ''decimals()''))),
      ReqHeaderByNumber,
      ReqFilterLogs \<lparr>FromBlock = - 49, ToBlock = 50,
        Addresses = [HexToAddress USDC_CONTRACT_ADDRESS],
        QueryTopics = [[exampleHash (bytesOf TRANSFER_EVENT_SIGNATURE)]]\<rparr>]"
proof -
  let ?c = "exampleClient (\<lambda>i. Inr (U256Bytes 6)) 50 []"
  let ?w1 = "send (ReqDial ''https://eth.llamarpc.com'') emptyWorld"
  let ?in = "take 4 (exampleHash (bytesOf ''decimals()''))"
  have "CallContract ?c (HexToAddress USDC_CONTRACT_ADDRESS) ?in = Inr (U256Bytes (uint (6 :: byte)))"
    by (simp add: exampleClient_def)
  from Decimals_answer[where K=exampleHash and w="?w1", OF this]
  have d: "Decimals \<lparr>contract = NewBoundContract (HexToAddress USDC_CONTRACT_ADDRESS) (USDCABI exampleHash) ?c\<rparr> ?w1
             = (Ret (6, None), send (ReqCallContract (HexToAddress USDC_CONTRACT_ADDRESS) ?in) ?w1)" .
  have h: "HeaderByNumber ?c = Inr 50" by (simp add: exampleClient_def)
  have "requests (snd (main_usdc exampleHash (\<lambda>url. Inr ?c) emptyWorld)) =
          requests (send (ReqCallContract (HexToAddress USDC_CONTRACT_ADDRESS) ?in) ?w1) @
            [ReqHeaderByNumber,
             ReqFilterLogs \<lparr>FromBlock = int 50 - 99, ToBlock = int 50,
               Addresses = [HexToAddress USDC_CONTRACT_ADDRESS],
               QueryTopics = [[exampleHash (bytesOf TRANSFER_EVENT_SIGNATURE)]]\<rparr>]"
    by (rule start_block_not_clamped[where dial="\<lambda>url. Inr ?c" and K=exampleHash, OF _ d h]) simp_all
  then show ?thesis by (simp add: send_def emptyWorld_def)
qed

text \<open>The three accessors over a transport that fails every call.\<close>

theorem accessors_error_example:
  "Decimals \<lparr>contract = NewBoundContract (HexToAddress USDC_CONTRACT_ADDRESS) (USDCABI exampleHash)
               (exampleClient (\<lambda>i. Inl (Transport ''timeout'')) 0 [])\<rparr> emptyWorld
     = (Ret (0, Some (Transport ''timeout'')),
        send (ReqCallContract (HexToAddress USDC_CONTRACT_ADDRESS) (take 4 (exampleHash (bytesOf ''decimals()'')))) emptyWorld) \<and>
   bindOwnerOf (NewBoundContract (HexToAddress NFT_CONTRACT_ADDRESS) (NFT_ABI exampleHash)
               (exampleClient (\<lambda>i. Inl (Transport ''timeout'')) 0 [])) 1 emptyWorld
     = (Ret (replicate 20 0, Some (Transport ''timeout'')),
        send (ReqCallContract (HexToAddress NFT_CONTRACT_ADDRESS) (take 4 (exampleHash (bytesOf ''ownerOf(uint256)'')) @ U256Bytes 1)) emptyWorld) \<and>
   bindTokenURI (NewBoundContract (HexToAddress NFT_CONTRACT_ADDRESS) (NFT_ABI exampleHash)
               (exampleClient (\<lambda>i. Inl (Transport ''timeout'')) 0 [])) 1 emptyWorld
     = (Ret ([], Some (Transport ''timeout'')),
        send (ReqCallContract (HexToAddress NFT_CONTRACT_ADDRESS) (take 4 (exampleHash (bytesOf ''tokenURI(uint256)'')) @ U256Bytes 1)) emptyWorld)"
proof -
  let ?cl = "exampleClient (\<lambda>i. Inl (Transport ''timeout'')) 0 []"
  let ?u = "\<lparr>contract = NewBoundContract (HexToAddress USDC_CONTRACT_ADDRESS) (USDCABI exampleHash) ?cl\<rparr>"
  let ?c = "NewBoundContract (HexToAddress NFT_CONTRACT_ADDRESS) (NFT_ABI exampleHash) ?cl"
  have c1: "Call (contract ?u) ''decimals'' [] emptyWorld =
      (Inl (Transport ''timeout''),
       send (ReqCallContract (HexToAddress USDC_CONTRACT_ADDRESS) (take 4 (exampleHash (bytesOf ''decimals()'')))) emptyWorld)"
    using Call_transport_error[of "contract ?u" "''decimals''" "[]"
        "take 4 (exampleHash (bytesOf ''decimals()''))" "Transport ''timeout''" emptyWorld]
    by (simp add: NewBoundContract_sel Pack_decimals exampleClient_def)
  have c2: "Call ?c ''ownerOf'' [BigIntV 1] emptyWorld =
      (Inl (Transport ''timeout''),
       send (ReqCallContract (HexToAddress NFT_CONTRACT_ADDRESS) (take 4 (exampleHash (bytesOf ''ownerOf(uint256)'')) @ U256Bytes 1)) emptyWorld)"
    using Call_transport_error[of ?c "''ownerOf''" "[BigIntV 1]"
        "take 4 (exampleHash (bytesOf ''ownerOf(uint256)'')) @ U256Bytes 1" "Transport ''timeout''" emptyWorld]
    by (simp add: NewBoundContract_sel Pack_ownerOf exampleClient_def)
  have c3: "Call ?c ''tokenURI'' [BigIntV 1] emptyWorld =
      (Inl (Transport ''timeout''),
       send (ReqCallContract (HexToAddress NFT_CONTRACT_ADDRESS) (take 4 (exampleHash (bytesOf ''tokenURI(uint256)'')) @ U256Bytes 1)) emptyWorld)"
    using Call_transport_error[of ?c "''tokenURI''" "[BigIntV 1]"
        "take 4 (exampleHash (bytesOf ''tokenURI(uint256)'')) @ U256Bytes 1" "Transport ''timeout''" emptyWorld]
    by (simp add: NewBoundContract_sel Pack_tokenURI exampleClient_def)
  from accessors_zero_value_on_error[of ?u emptyWorld "Transport ''timeout''"
      "send (ReqCallContract (HexToAddress USDC_CONTRACT_ADDRESS) (take 4 (exampleHash (bytesOf ''decimals()'')))) emptyWorld"] c1
  have a1: "Decimals ?u emptyWorld = (Ret (0, Some (Transport ''timeout'')),
        send (ReqCallContract (HexToAddress USDC_CONTRACT_ADDRESS) (take 4 (exampleHash (bytesOf ''decimals()'')))) emptyWorld)"
    by blast
  from accessors_zero_value_on_error[where c="?c" and tokenId=1 and w=emptyWorld
      and err="Transport ''timeout''"
      and w'="send (ReqCallContract (HexToAddress NFT_CONTRACT_ADDRESS) (take 4 (exampleHash (bytesOf ''ownerOf(uint256)'')) @ U256Bytes 1)) emptyWorld"] c2
  have a2: "bindOwnerOf ?c 1 emptyWorld = (Ret (replicate 20 0, Some (Transport ''timeout'')),
        send (ReqCallContract (HexToAddress NFT_CONTRACT_ADDRESS) (take 4 (exampleHash (bytesOf ''ownerOf(uint256)'')) @ U256Bytes 1)) emptyWorld)"
    by blast
  from accessors_zero_value_on_error[where c="?c" and tokenId=1 and w=emptyWorld
      and err="Transport ''timeout''"
      and w'="send (ReqCallContract (HexToAddress NFT_CONTRACT_ADDRESS) (take 4 (exampleHash (bytesOf ''tokenURI(uint256)'')) @ U256Bytes 1)) emptyWorld"] c3
  have a3: "bindTokenURI ?c 1 emptyWorld = (Ret ([], Some (Transport ''timeout'')),
        send (ReqCallContract (HexToAddress NFT_CONTRACT_ADDRESS) (take 4 (exampleHash (bytesOf ''tokenURI(uint256)'')) @ U256Bytes 1)) emptyWorld)"
    by blast
  from a1 a2 a3 show ?thesis by blast
qed

lemma example_selectors:
  "take 4 (exampleHash (bytesOf ''ownerOf(uint256)'')) = [0x6f, 0x77, 0x6e, 0x65]"
  "take 4 (exampleHash (bytesOf ''tokenURI(uint256)'')) = [0x74, 0x6f, 0x6b, 0x65]"
  by (simp_all add: exampleHash_def bytesOf_def)

text \<open>
  The token 1, an owner 3333...33 and the URI ipfs://example/1.json, over a transport that
  tells the two calls apart by their method id.
\<close>

theorem roundtrip_example:
  "bindOwnerOf (NewBoundContract (HexToAddress NFT_CONTRACT_ADDRESS) (NFT_ABI exampleHash)
      (exampleClient (\<lambda>input. if take 4 input = [0x6f, 0x77, 0x6e, 0x65]
                               then ArgumentsPack [AddressTy] [AddressV (replicate 20 0x33)]
                               else ArgumentsPack [StringTy] [StringV ''ipfs://example/1.json'']) 0 []))
      1 emptyWorld
     = (Ret (replicate 20 0x33, None),
        send (ReqCallContract (HexToAddress NFT_CONTRACT_ADDRESS) ([0x6f, 0x77, 0x6e, 0x65] @ U256Bytes 1)) emptyWorld) \<and>
   bindTokenURI (NewBoundContract (HexToAddress NFT_CONTRACT_ADDRESS) (NFT_ABI exampleHash)
      (exampleClient (\<lambda>input. if take 4 input = [0x6f, 0x77, 0x6e, 0x65]
                               then ArgumentsPack [AddressTy] [AddressV (replicate 20 0x33)]
                               else ArgumentsPack [StringTy] [StringV ''ipfs://example/1.json'']) 0 []))
      1 emptyWorld
     = (Ret (''ipfs://example/1.json'', None),
        send (ReqCallContract (HexToAddress NFT_CONTRACT_ADDRESS) ([0x74, 0x6f, 0x6b, 0x65] @ U256Bytes 1)) emptyWorld)"
proof -
  let ?cl = "exampleClient (\<lambda>input. if take 4 input = [0x6f, 0x77, 0x6e, 0x65]
                               then ArgumentsPack [AddressTy] [AddressV (replicate 20 0x33)]
                               else ArgumentsPack [StringTy] [StringV ''ipfs://example/1.json'']) 0 []"
  have l: "length (replicate 20 (0x33 :: byte)) = AddressLength"
    by (simp add: AddressLength_def)
  have s: "64 + length ''ipfs://example/1.json'' < (2 :: nat) ^ 63"
    by simp
  have h1: "CallContract ?cl (HexToAddress NFT_CONTRACT_ADDRESS) (take 4 (exampleHash (bytesOf ''ownerOf(uint256)'')) @ U256Bytes 1)
              = ArgumentsPack [AddressTy] [AddressV (replicate 20 0x33)]"
    by (simp add: example_selectors exampleClient_def)
  have h2: "CallContract ?cl (HexToAddress NFT_CONTRACT_ADDRESS) (take 4 (exampleHash (bytesOf ''tokenURI(uint256)'')) @ U256Bytes 1)
              = ArgumentsPack [StringTy] [StringV ''ipfs://example/1.json'']"
    by (simp add: example_selectors exampleClient_def)
  from nft_call_roundtrip[where K=exampleHash and client="?cl" and addr="HexToAddress NFT_CONTRACT_ADDRESS" and tokenId=1
      and w=emptyWorld, OF l s] h1 h2
  show ?thesis by (simp add: example_selectors)
qed

lemma Parse_no_args:
  "Parse P (CommandLine\<lparr>args := []\<rparr>)
     = Inr \<lparr>formal = [(''tokenId'', 1)], actual = [], args = []\<rparr>"
  by (simp add: Parse_empty CommandLine_def Int64_def)

lemma IntString_1: "IntString 1 = ''1''"
  by (simp add: IntString_def decimal.simps)

lemma AddressHex_example:
  "AddressHex exampleHash (replicate 20 0x33) = ''0x3333333333333333333333333333333333333333''"
  by code_simp

text \<open>
  The three failures over concrete transports, for the NFT command without arguments.
\<close>

theorem failure_propagation_example:
  "main_usdc exampleHash (\<lambda>url. Inr (exampleClient (\<lambda>i. Inl (Transport ''timeout'')) 0 [])) emptyWorld =
     (Fatalf ''Failed to get USDC decimal places: '' (Transport ''timeout''),
      \<lparr>stdout = [],
       requests = [ReqDial ''https://eth.llamarpc.com'',
                   ReqCallContract (HexToAddress USDC_CONTRACT_ADDRESS)
                     (take 4 (exampleHash (bytesOf ''decimals()'')))]\<rparr>) \<and>
   main_nft exampleHash (\<lambda>s. None) (\<lambda>url. Inr (exampleClient (\<lambda>i. Inl (Transport ''timeout'')) 0 [])) [] emptyWorld =
     (Fatalf ''get NFT info failed: '' (Errorf ''get owner address failed: '' (Transport ''timeout'')),
      \<lparr>stdout = [''start getting NFT info...'' @ nl,
                 ''contract address: 0x0483b0dfc6c78062b9e999a82ffb795925381415'' @ nl,
                 ''Token ID: 1'' @ nl],
       requests = [ReqDial ''https://cloudflare-eth.com'',
                   ReqCallContract (HexToAddress NFT_CONTRACT_ADDRESS)
                     ([0x6f, 0x77, 0x6e, 0x65] @ U256Bytes 1)]\<rparr>) \<and>
   main_nft exampleHash (\<lambda>s. None)
      (\<lambda>url. Inr (exampleClient (\<lambda>input. if take 4 input = [0x6f, 0x77, 0x6e, 0x65]
                               then ArgumentsPack [AddressTy] [AddressV (replicate 20 0x33)]
                               else Inl (Transport ''timeout'')) 0 [])) [] emptyWorld =
     (Fatalf ''get NFT info failed: '' (Errorf ''get metadata URI failed: '' (Transport ''timeout'')),
      \<lparr>stdout = [''start getting NFT info...'' @ nl,
                 ''contract address: 0x0483b0dfc6c78062b9e999a82ffb795925381415'' @ nl,
                 ''Token ID: 1'' @ nl,
                 ''Token ID 1 owner address: 0x3333333333333333333333333333333333333333'' @ nl],
       requests = [ReqDial ''https://cloudflare-eth.com'',
                   ReqCallContract (HexToAddress NFT_CONTRACT_ADDRESS)
                     ([0x6f, 0x77, 0x6e, 0x65] @ U256Bytes 1),
                   ReqCallContract (HexToAddress NFT_CONTRACT_ADDRESS)
                     ([0x74, 0x6f, 0x6b, 0x65] @ U256Bytes 1)]\<rparr>)"
proof -
  let ?fail = "exampleClient (\<lambda>i. Inl (Transport ''timeout'')) 0 []"
  let ?half = "exampleClient (\<lambda>input. if take 4 input = [0x6f, 0x77, 0x6e, 0x65]
                               then ArgumentsPack [AddressTy] [AddressV (replicate 20 0x33)]
                               else Inl (Transport ''timeout'')) 0 []"
  let ?parsed = "\<lparr>formal = [(''tokenId'', 1 :: 64 word)], actual = [], args = []\<rparr>"
  have t: "sint (deref ?parsed ''tokenId'') = 1"
    by (simp add: deref_def)
  have a: "main_usdc exampleHash (\<lambda>url. Inr ?fail) emptyWorld =
     (Fatalf ''Failed to get USDC decimal places: '' (Transport ''timeout''),
      emptyWorld\<lparr>requests := requests emptyWorld @ [ReqDial ''https://eth.llamarpc.com'',
                   ReqCallContract (HexToAddress USDC_CONTRACT_ADDRESS)
                     (take 4 (exampleHash (bytesOf ''decimals()'')))]\<rparr>)"
    using failure_propagation[where dial="\<lambda>url. Inr ?fail" and client="?fail" and K=exampleHash
        and err="Transport ''timeout''" and w=emptyWorld]
    by (simp add: exampleClient_def)
  have b: "main_nft exampleHash (\<lambda>s. None) (\<lambda>url. Inr ?fail) [] emptyWorld =
      (Fatalf ''get NFT info failed: '' (Errorf ''get owner address failed: '' (Transport ''timeout'')),
       emptyWorld\<lparr>stdout := stdout emptyWorld @
             [''start getting NFT info...'' @ nl,
              ''contract address: '' @ NFT_CONTRACT_ADDRESS @ nl,
              ''Token ID: '' @ IntString (sint (deref ?parsed ''tokenId'')) @ nl],
           requests := requests emptyWorld @
             [ReqDial ''https://cloudflare-eth.com'',
              ReqCallContract (HexToAddress NFT_CONTRACT_ADDRESS)
                (take 4 (exampleHash (bytesOf ''ownerOf(uint256)'')) @ U256Bytes (sint (deref ?parsed ''tokenId'')))]\<rparr>)"
    using failure_propagation[where dial="\<lambda>url. Inr ?fail" and client="?fail" and K=exampleHash
        and err="Transport ''timeout''" and w=emptyWorld and ParseInt="\<lambda>s. None" and osArgs="[]"
        and parsed="?parsed"]
      Parse_no_args[of "\<lambda>s. None"]
    by (simp add: exampleClient_def)
  have c: "main_nft exampleHash (\<lambda>s. None) (\<lambda>url. Inr ?half) [] emptyWorld =
      (Fatalf ''get NFT info failed: '' (Errorf ''get metadata URI failed: '' (Transport ''timeout'')),
       emptyWorld\<lparr>stdout := stdout emptyWorld @
             [''start getting NFT info...'' @ nl,
              ''contract address: '' @ NFT_CONTRACT_ADDRESS @ nl,
              ''Token ID: '' @ IntString (sint (deref ?parsed ''tokenId'')) @ nl,
              ''Token ID '' @ IntString (sint (deref ?parsed ''tokenId'')) @ '' owner address: ''
                @ AddressHex exampleHash (replicate 20 0x33) @ nl],
           requests := requests emptyWorld @
             [ReqDial ''https://cloudflare-eth.com'',
              ReqCallContract (HexToAddress NFT_CONTRACT_ADDRESS)
                (take 4 (exampleHash (bytesOf ''ownerOf(uint256)'')) @ U256Bytes (sint (deref ?parsed ''tokenId''))),
              ReqCallContract (HexToAddress NFT_CONTRACT_ADDRESS)
                (take 4 (exampleHash (bytesOf ''tokenURI(uint256)'')) @ U256Bytes (sint (deref ?parsed ''tokenId'')))]\<rparr>)"
    using failure_propagation[where dial="\<lambda>url. Inr ?half" and client="?half" and K=exampleHash
        and err="Transport ''timeout''" and w=emptyWorld and ParseInt="\<lambda>s. None" and osArgs="[]"
        and parsed="?parsed" and a="replicate 20 0x33"]
      Parse_no_args[of "\<lambda>s. None"]
    by (simp add: exampleClient_def example_selectors AddressLength_def)
  from a b c show ?thesis
    unfolding t by (simp add: emptyWorld_def example_selectors NFT_CONTRACT_ADDRESS_def IntString_1 AddressHex_example)
qed

text \<open>
  Without arguments the command queries the token 1; \<^verbatim>\<open>-tokenId 42\<close> sets the value
  42; \<^verbatim>\<open>-tokenId abc\<close> and \<^verbatim>\<open>-verbose\<close> end the process.
\<close>

theorem tokenId_flag_example:
  "Parse (\<lambda>s. if s = ''42'' then Some 42 else None)
      (CommandLine\<lparr>args := []\<rparr>)
     = Inr \<lparr>formal = [(''tokenId'', 1)], actual = [], args = []\<rparr> \<and>
   main_nft exampleHash (\<lambda>s. if s = ''42'' then Some 42 else None)
      (\<lambda>url. Inr (exampleClient (\<lambda>input. if take 4 input = [0x6f, 0x77, 0x6e, 0x65]
                               then ArgumentsPack [AddressTy] [AddressV (replicate 20 0x33)]
                               else ArgumentsPack [StringTy] [StringV ''ipfs://example/1.json'']) 0 []))
      [] emptyWorld =
     (Success,
      \<lparr>stdout = [''start getting NFT info...'' @ nl,
                 ''contract address: 0x0483b0dfc6c78062b9e999a82ffb795925381415'' @ nl,
                 ''Token ID: 1'' @ nl,
                 ''Token ID 1 owner address: 0x3333333333333333333333333333333333333333'' @ nl,
                 ''Token ID 1 metadata URI: ipfs://example/1.json'' @ nl],
       requests = [ReqDial ''https://cloudflare-eth.com'',
                   ReqCallContract (HexToAddress NFT_CONTRACT_ADDRESS)
                     ([0x6f, 0x77, 0x6e, 0x65] @ U256Bytes 1),
                   ReqCallContract (HexToAddress NFT_CONTRACT_ADDRESS)
                     ([0x74, 0x6f, 0x6b, 0x65] @ U256Bytes 1)]\<rparr>) \<and>
   Parse (\<lambda>s. if s = ''42'' then Some 42 else None)
      (CommandLine\<lparr>args := [''-tokenId'', ''42'']\<rparr>)
     = Inr \<lparr>formal = [(''tokenId'', 42)], actual = [''tokenId''], args = []\<rparr> \<and>
   main_nft exampleHash (\<lambda>s. if s = ''42'' then Some 42 else None) (\<lambda>url. Inl (Transport ''offline''))
      [''-tokenId'', ''abc''] emptyWorld
     = (FlagExit (InvalidValue ''abc'' ''tokenId''), emptyWorld) \<and>
   main_nft exampleHash (\<lambda>s. if s = ''42'' then Some 42 else None) (\<lambda>url. Inl (Transport ''offline''))
      [''-verbose''] emptyWorld
     = (FlagExit (NotDefined ''verbose''), emptyWorld)"
proof -
  let ?P = "\<lambda>s. if s = ''42'' then Some (42 :: 64 word) else None"
  let ?cl = "exampleClient (\<lambda>input. if take 4 input = [0x6f, 0x77, 0x6e, 0x65]
                               then ArgumentsPack [AddressTy] [AddressV (replicate 20 0x33)]
                               else ArgumentsPack [StringTy] [StringV ''ipfs://example/1.json'']) 0 []"
  let ?parsed = "\<lparr>formal = [(''tokenId'', 1 :: 64 word)], actual = [], args = []\<rparr>"
  let ?c = "NewBoundContract (HexToAddress NFT_CONTRACT_ADDRESS) (NFT_ABI exampleHash) ?cl"
  note T = tokenId_flag[where ParseInt="?P" and K=exampleHash and w=emptyWorld]
  have p: "Parse ?P (CommandLine\<lparr>args := []\<rparr>) = Inr ?parsed"
    by (rule Parse_no_args)
  have own: "bindOwnerOf ?c 1 w =
      (Ret (replicate 20 0x33, None),
       send (ReqCallContract (HexToAddress NFT_CONTRACT_ADDRESS) ([0x6f, 0x77, 0x6e, 0x65] @ U256Bytes 1)) w)" for w
    using bindOwnerOf_answer[where K=exampleHash and client="?cl" and a="replicate 20 0x33"
        and addr="HexToAddress NFT_CONTRACT_ADDRESS" and tokenId=1 and w=w]
    by (simp add: example_selectors exampleClient_def AddressLength_def)
  have uri: "bindTokenURI ?c 1 w =
      (Ret (''ipfs://example/1.json'', None),
       send (ReqCallContract (HexToAddress NFT_CONTRACT_ADDRESS) ([0x74, 0x6f, 0x6b, 0x65] @ U256Bytes 1)) w)" for w
    using bindTokenURI_answer[where K=exampleHash and client="?cl" and s="''ipfs://example/1.json''"
        and addr="HexToAddress NFT_CONTRACT_ADDRESS" and tokenId=1 and w=w]
    by (simp add: example_selectors exampleClient_def)
  have run: "main_nft exampleHash ?P (\<lambda>url. Inr ?cl) [] emptyWorld =
           (case getNFTInfo exampleHash \<lparr>OwnerOf = bindOwnerOf ?c, TokenURI = bindTokenURI ?c\<rparr>
                   1 (send (ReqDial ''https://cloudflare-eth.com'') emptyWorld) of
              (Panic p, w2) \<Rightarrow> (Crash p, w2)
            | (Ret (Some err), w2) \<Rightarrow> (Fatalf ''get NFT info failed: '' err, w2)
            | (Ret None, w2) \<Rightarrow> (Success, w2))"
    using T[where osArgs="[]" and parsed="?parsed" and dial="\<lambda>url. Inr ?cl" and client="?cl"] p
    by simp
  have a: "main_nft exampleHash ?P (\<lambda>url. Inr ?cl) [] emptyWorld =
     (Success,
      \<lparr>stdout = [''start getting NFT info...'' @ nl,
                 ''contract address: 0x0483b0dfc6c78062b9e999a82ffb795925381415'' @ nl,
                 ''Token ID: 1'' @ nl,
                 ''Token ID 1 owner address: 0x3333333333333333333333333333333333333333'' @ nl,
                 ''Token ID 1 metadata URI: ipfs://example/1.json'' @ nl],
       requests = [ReqDial ''https://cloudflare-eth.com'',
                   ReqCallContract (HexToAddress NFT_CONTRACT_ADDRESS)
                     ([0x6f, 0x77, 0x6e, 0x65] @ U256Bytes 1),
                   ReqCallContract (HexToAddress NFT_CONTRACT_ADDRESS)
                     ([0x74, 0x6f, 0x6b, 0x65] @ U256Bytes 1)]\<rparr>)"
    unfolding run
    by (simp add: getNFTInfo_def Let_def own uri)
       (simp add: send_def Printf_def emptyWorld_def NFT_CONTRACT_ADDRESS_def IntString_1
          AddressHex_example)
  have b: "Parse ?P (CommandLine\<lparr>args := [''-tokenId'', ''42'']\<rparr>)
     = Inr \<lparr>formal = [(''tokenId'', 42)], actual = [''tokenId''], args = []\<rparr>"
    using T[where v="''42''" and x=42] by simp
  have c: "main_nft exampleHash ?P (\<lambda>url. Inl (Transport ''offline'')) [''-tokenId'', ''abc''] emptyWorld
     = (FlagExit (InvalidValue ''abc'' ''tokenId''), emptyWorld)"
    using T[where v="''abc''" and dial="\<lambda>url. Inl (Transport ''offline'')"] by simp
  have d: "main_nft exampleHash ?P (\<lambda>url. Inl (Transport ''offline'')) [''-verbose''] emptyWorld
     = (FlagExit (NotDefined ''verbose''), emptyWorld)"
    using T[where name="''verbose''" and rest="[]" and dial="\<lambda>url. Inl (Transport ''offline'')"] by simp
  from p a b c d show ?thesis by blast
qed

end
